theory Spec2Isabelle
  imports Main "HOL-Library.Sublist"
begin

section \<open>Values of the JavaScript runtime\<close>

text \<open>
  Strings are lists of code units (\<^typ>\<open>string\<close>). A value that the handlers read from the
  untyped argument object is a \<^typ>\<open>string option\<close>: \<open>None\<close> is \<open>undefined\<close>. The tool
  schemas of \<open>server.ts\<close> declare every path argument as a string, so other JavaScript
  values are not arguments of this model.
\<close>

definition newline :: char where
  "newline = CHR 0x0A"

definition dquote :: char where
  "dquote = CHR 0x22"

definition squote :: char where
  "squote = CHR 0x27"

text \<open>\<open>String.prototype.includes\<close>: does \<open>sub\<close> occur in \<open>s\<close> as a contiguous run.\<close>

fun str_includes :: "string \<Rightarrow> string \<Rightarrow> bool" where
  "str_includes [] sub = (sub = [])"
| "str_includes (c # cs) sub = (prefix sub (c # cs) \<or> str_includes cs sub)"

text \<open>
  \<open>String.prototype.split\<close> with a separator of one code unit: the fragments between
  the separators, in order; the empty string splits into one empty fragment.
\<close>

fun split_str :: "string \<Rightarrow> char \<Rightarrow> string list" where
  "split_str [] sep = [[]]"
| "split_str (c # cs) sep =
     (if c = sep then [] # split_str cs sep
      else (case split_str cs sep of
              [] \<Rightarrow> [[c]]
            | f # fs \<Rightarrow> (c # f) # fs))"

text \<open>\<open>Array.prototype.join\<close> with a separator of one code unit.\<close>

fun join_str :: "string list \<Rightarrow> char \<Rightarrow> string" where
  "join_str [] sep = []"
| "join_str [f] sep = f"
| "join_str (f # g # fs) sep = f @ sep # join_str (g # fs) sep"

text \<open>
  \<open>String.prototype.trim\<close> on the white space and line terminators that fit a
  \<^typ>\<open>char\<close>.
\<close>

definition is_space :: "char \<Rightarrow> bool" where
  "is_space c = (c \<in> set [CHR 0x09, CHR 0x0A, CHR 0x0B, CHR 0x0C, CHR 0x0D, CHR 0x20])"

definition trim :: "string \<Rightarrow> string" where
  "trim s = rev (dropWhile is_space (rev (dropWhile is_space s)))"

text \<open>Truthiness of an optional string: \<open>undefined\<close> and \<open>''''\<close> are falsy.\<close>

definition truthy :: "string option \<Rightarrow> bool" where
  "truthy v = (case v of None \<Rightarrow> False | Some s \<Rightarrow> s \<noteq> [])"

text \<open>The string behind a value that has been tested truthy.\<close>

definition str :: "string option \<Rightarrow> string" where
  "str v = (case v of None \<Rightarrow> [] | Some s \<Rightarrow> s)"

text \<open>\<open>a || b\<close> on strings.\<close>

definition or_else :: "string option \<Rightarrow> string \<Rightarrow> string" where
  "or_else v d = (if truthy v then str v else d)"

text \<open>
  Structured data (parameter bags, JSON payloads). An object is an association list in
  insertion order. Numbers are kept as integers: no function of this theory inspects them.
\<close>

datatype json =
    JNull
  | JBool bool
  | JNum int
  | JStr string
  | JArr "json list"
  | JObj "(string \<times> json) list"

fun json_truthy :: "json \<Rightarrow> bool" where
  "json_truthy JNull = False"
| "json_truthy (JBool b) = b"
| "json_truthy (JNum n) = (n \<noteq> 0)"
| "json_truthy (JStr s) = (s \<noteq> [])"
| "json_truthy (JArr xs) = True"
| "json_truthy (JObj kvs) = True"

fun isArray :: "json \<Rightarrow> bool" where
  "isArray (JArr xs) = True"
| "isArray j = False"

section \<open>Responses, thrown values, promises\<close>

text \<open>
  \<open>ToolResponse\<close> of \<open>types/index.ts\<close>: content blocks of type \<open>text\<close> and the optional
  \<open>isError\<close> flag (\<open>None\<close>: the field is absent).
\<close>

datatype content_block = TextContent string

record ToolResponse =
  content :: "content_block list"
  isError :: "bool option"

text \<open>
  What a \<open>throw\<close> or a rejection carries: an \<open>Error\<close> with its message, the SDK's
  \<open>McpError\<close> (a subclass of \<open>Error\<close>) with the text it was built from, or a
  \<open>ToolResponse\<close> object (the handlers that wait for a \<open>spawn\<close> event reject with one).
\<close>

datatype thrown =
    Error string
  | McpError string
  | ThrownResponse ToolResponse

text \<open>
  The state a promise ends in. \<open>Pending\<close>: it never settles (the awaited child process
  never reports).
\<close>

datatype 'a promise = Resolved 'a | Rejected thrown | Pending

text \<open>
  Modelled from the spec: \<open>utils/error-handler.ts\<close> (\<open>ErrorHandler.createErrorResponse\<close>)
  is not among the source files. Section 4.5 of the spec: a \<open>ToolResponse\<close> with the
  error flag set, carrying the message and the suggested remediations. Here: one text
  block for the message, then one per suggestion.
\<close>

definition createErrorResponse :: "string \<Rightarrow> string list \<Rightarrow> ToolResponse" where
  "createErrorResponse message possibleSolutions =
     \<lparr>content = TextContent message # map TextContent possibleSolutions,
      isError = Some True\<rparr>"

definition success :: "string \<Rightarrow> ToolResponse" where
  "success t = \<lparr>content = [TextContent t], isError = None\<rparr>"

section \<open>The path validator (\<open>utils/path-validator.ts\<close>)\<close>

definition validatePath :: "string \<Rightarrow> bool" where
  "validatePath path = (if path = [] \<or> str_includes path ''..'' then False else True)"

section \<open>The world outside the server\<close>

text \<open>
  What a child process emits, in order. \<open>Closed code\<close> is the \<open>close\<close> event with its
  exit code (\<open>None\<close>: \<open>null\<close>), \<open>Failed m\<close> the \<open>error\<close> event of an \<open>Error\<close> with
  message \<open>m\<close>.
\<close>

datatype child_event =
    Spawned
  | Stdout_data string
  | Stderr_data string
  | Closed "int option"
  | Failed string

text \<open>
  The collaborators that are not in the source files, as functions of the world:
  the file system (\<open>existsSync\<close>, \<open>path.join\<close>), the path detector's result, the
  promisified \<open>exec\<close> (the state its promise of \<open>stdout\<close> ends in), the behaviour of a
  child started by \<open>spawn\<close> with a command and an argument vector,
  \<open>ParameterMapperImpl.convertCamelToSnakeCase\<close>, \<open>JSON.stringify\<close> (with its indent,
  0 for none), the message the SDK gives a \<open>McpError\<close>, and the directory scans of the
  info handler (outside the core).
\<close>

record world =
  existsSync :: "string \<Rightarrow> bool"
  path_join :: "string \<Rightarrow> string \<Rightarrow> string"
  getGodotPath :: "string option"
  execAsync :: "string \<Rightarrow> string promise"
  child_events :: "string \<Rightarrow> string list \<Rightarrow> child_event list"
  convertCamelToSnakeCase :: "json \<Rightarrow> json"
  JSON_stringify :: "nat \<Rightarrow> json \<Rightarrow> string"
  McpError_message :: "string \<Rightarrow> string"
  findGodotProjects :: "string \<Rightarrow> bool \<Rightarrow> json"
  getProjectStructureAsync :: "string \<Rightarrow> json"
  projectName :: "string \<Rightarrow> string"

text \<open>An action on the outside world, in the order the server takes them.\<close>

datatype effect =
    Spawn string "string list"
  | Exec string
  | Kill nat

section \<open>The operation executor (\<open>modules/operation-executor.ts\<close>)\<close>

record OperationExecutorImpl =
  operationsScriptPath :: string
  godotPath :: "string option"
  godotDebugMode :: bool
  debugMode :: bool

record OperationResult =
  stdout :: string
  stderr :: string
  exitCode :: int

definition setGodotPath :: "string \<Rightarrow> OperationExecutorImpl \<Rightarrow> OperationExecutorImpl" where
  "setGodotPath path ex = ex\<lparr>godotPath := Some path\<rparr>"

text \<open>\<open>code || 0\<close> on the \<open>close\<close> event's code.\<close>

definition code_or_zero :: "int option \<Rightarrow> int" where
  "code_or_zero code = (case code of None \<Rightarrow> 0 | Some c \<Rightarrow> if c \<noteq> 0 then c else 0)"

text \<open>
  The listeners of \<open>executeOperation\<close> run over the child's events: data is appended to
  \<open>stdout\<close> and \<open>stderr\<close>, the first \<open>close\<close> resolves, the first \<open>error\<close> rejects.
\<close>

fun collect :: "child_event list \<Rightarrow> string \<Rightarrow> string \<Rightarrow> OperationResult promise" where
  "collect [] out err = Pending"
| "collect (Spawned # es) out err = collect es out err"
| "collect (Stdout_data d # es) out err = collect es (out @ d) err"
| "collect (Stderr_data d # es) out err = collect es out (err @ d)"
| "collect (Closed code # es) out err =
     Resolved \<lparr>stdout = out, stderr = err, exitCode = code_or_zero code\<rparr>"
| "collect (Failed m # es) out err = Rejected (Error m)"

text \<open>
  The events that settle the promise of \<open>executeOperation\<close>, and the text that the data
  events before them carry on each stream.
\<close>

fun settles :: "child_event \<Rightarrow> bool" where
  "settles (Closed code) = True"
| "settles (Failed m) = True"
| "settles e = False"

fun stdout_text :: "child_event list \<Rightarrow> string" where
  "stdout_text [] = []"
| "stdout_text (Stdout_data d # es) = d @ stdout_text es"
| "stdout_text (e # es) = stdout_text es"

fun stderr_text :: "child_event list \<Rightarrow> string" where
  "stderr_text [] = []"
| "stderr_text (Stderr_data d # es) = d @ stderr_text es"
| "stderr_text (e # es) = stderr_text es"

text \<open>
  The argument vector that \<open>executeOperation\<close> builds for \<open>spawn\<close>. The source converts
  the parameters before it tests the executable path; the conversion has no effect on the
  world, so it stands here with the other parts of the vector.
\<close>

definition operation_args ::
  "world \<Rightarrow> OperationExecutorImpl \<Rightarrow> string \<Rightarrow> json \<Rightarrow> string \<Rightarrow> string list" where
  "operation_args w ex operation params projectPath =
     (let snakeCaseParams = convertCamelToSnakeCase w params;
          paramsJson = JSON_stringify w 0 snakeCaseParams;
          debugArgs = (if godotDebugMode ex then [''--debug-godot''] else [])
      in [''--headless'', ''--path'', projectPath, ''--script'',
          operationsScriptPath ex, operation, paramsJson] @ debugArgs)"

text \<open>
  \<open>executeOperation\<close>: the effects it has on the world (the \<open>spawn\<close> call, if any) and the
  state its promise ends in. The debug log lines are not modelled.
\<close>

definition executeOperation ::
  "world \<Rightarrow> OperationExecutorImpl \<Rightarrow> string \<Rightarrow> json \<Rightarrow> string
     \<Rightarrow> effect list \<times> OperationResult promise" where
  "executeOperation w ex operation params projectPath =
     (if \<not> truthy (godotPath ex)
      then ([], Rejected (Error ''Could not find a valid Godot executable path''))
      else
        let args = operation_args w ex operation params projectPath
        in ([Spawn (str (godotPath ex)) args],
            collect (child_events w (str (godotPath ex)) args) [] []))"

section \<open>The handlers' common base (\<open>handlers/base-handler.ts\<close>)\<close>

text \<open>
  The argument object of a tool call, with the fields the handlers read. A call without
  an argument object, or with a field that is not of its declared type, makes the handler
  throw a \<open>TypeError\<close> or take the field by its truthiness; such calls are not among the
  values of this record.
\<close>

record args =
  projectPath :: "string option"
  scenePath :: "string option"
  rootNodeType :: "string option"
  nodeType :: "string option"
  nodeName :: "string option"
  parentNodePath :: "string option"
  properties :: "json option"
  newPath :: "string option"
  nodePath :: "string option"
  texturePath :: "string option"
  outputPath :: "string option"
  meshItemNames :: "json option"
  filePath :: "string option"
  scene :: "string option"
  directory :: "string option"
  recursive :: "json option"

text \<open>
  The three validations throw or return nothing: \<open>Some e\<close> is the thrown value,
  \<open>None\<close> a normal return.
\<close>

definition validateProjectPath :: "string \<Rightarrow> thrown option" where
  "validateProjectPath path =
     (if \<not> validatePath path
      then Some (Error ''Invalid project path - contains potentially unsafe characters'')
      else None)"

definition validateProjectDirectory :: "world \<Rightarrow> string \<Rightarrow> thrown option" where
  "validateProjectDirectory w pp =
     (let projectFile = path_join w pp ''project.godot'' in
      if \<not> existsSync w projectFile
      then Some (Error (''Not a valid Godot project: '' @ pp))
      else None)"

definition validateFileExists :: "world \<Rightarrow> string \<Rightarrow> thrown option" where
  "validateFileExists w fp =
     (if \<not> existsSync w fp then Some (Error (''File does not exist: '' @ fp)) else None)"

text \<open>Statements that may throw, run in sequence: the first thrown value, if any.\<close>

fun first_failure :: "thrown option list \<Rightarrow> thrown option" where
  "first_failure [] = None"
| "first_failure (None # cs) = first_failure cs"
| "first_failure (Some e # cs) = Some e"

text \<open>\<open>error instanceof Error ? error.message : 'Unknown error'\<close>\<close>

fun error_message :: "world \<Rightarrow> thrown \<Rightarrow> string" where
  "error_message w (Error m) = m"
| "error_message w (McpError m) = McpError_message w m"
| "error_message w (ThrownResponse r) = ''Unknown error''"

text \<open>\<open>error?.message || 'Unknown error'\<close>\<close>

definition message_or_unknown :: "world \<Rightarrow> thrown \<Rightarrow> string" where
  "message_or_unknown w e =
     (if error_message w e \<noteq> [] then error_message w e else ''Unknown error'')"

text \<open>\<open>stderr || 'Unknown error'\<close>\<close>

definition stderr_or_unknown :: "OperationResult \<Rightarrow> string" where
  "stderr_or_unknown r = (if stderr r \<noteq> [] then stderr r else ''Unknown error'')"

text \<open>The suggestions that every \<open>catch\<close> clause of the operation handlers gives.\<close>

definition catch_suggestions :: "string list" where
  "catch_suggestions =
     [''Ensure Godot is installed correctly'',
      ''Check if the GODOT_PATH environment variable is set correctly'',
      ''Verify the project path is accessible'']"

definition no_godot_path :: ToolResponse where
  "no_godot_path =
     createErrorResponse ''Could not find a valid Godot executable path''
       [''Ensure Godot is installed correctly'',
        ''Set GODOT_PATH environment variable to specify the correct path'']"

section \<open>The scene handler (\<open>handlers/scene-handler.ts\<close>)\<close>

text \<open>
  A handler gives the effects it has on the world and the state of the promise it
  returns: \<open>Rejected e\<close> when a statement outside its \<open>try\<close> throws \<open>e\<close>.
\<close>

definition create_scene_params :: "args \<Rightarrow> json" where
  "create_scene_params a =
     JObj [(''scenePath'', JStr (str (scenePath a))),
           (''rootNodeType'', JStr (or_else (rootNodeType a) ''Node2D''))]"

definition handleCreateScene ::
  "world \<Rightarrow> OperationExecutorImpl \<Rightarrow> args \<Rightarrow> effect list \<times> ToolResponse promise" where
  "handleCreateScene w ex a =
     (if \<not> truthy (projectPath a) \<or> \<not> truthy (scenePath a)
      then ([], Resolved (createErrorResponse ''Project path and scene path are required''
              [''Provide valid paths for both the project and the scene'']))
      else
        case first_failure
               [validateProjectPath (str (projectPath a)),
                validateProjectPath (str (scenePath a)),
                validateProjectDirectory w (str (projectPath a))] of
          Some e \<Rightarrow> ([], Rejected e)
        | None \<Rightarrow>
            (case executeOperation w ex ''create_scene'' (create_scene_params a)
                    (str (projectPath a)) of
               (effs, Resolved r) \<Rightarrow>
                 (effs,
                  if exitCode r \<noteq> 0 \<or> stderr r \<noteq> []
                  then Resolved (createErrorResponse
                         (''Failed to create scene: '' @ stderr_or_unknown r)
                         [''Check if the root node type is valid'',
                          ''Ensure you have write permissions to the scene path'',
                          ''Verify the scene path is valid''])
                  else Resolved (success
                         (''Scene created successfully at: '' @ str (scenePath a)
                            @ [newline, newline] @ ''Output: '' @ stdout r)))
             | (effs, Rejected e) \<Rightarrow>
                 (effs, Resolved (createErrorResponse
                    (''Failed to create scene: '' @ message_or_unknown w e)
                    catch_suggestions))
             | (effs, Pending) \<Rightarrow> (effs, Pending)))"

definition add_node_params :: "args \<Rightarrow> json" where
  "add_node_params a =
     JObj ([(''scenePath'', JStr (str (scenePath a))),
            (''nodeType'', JStr (str (nodeType a))),
            (''nodeName'', JStr (str (nodeName a)))]
           @ (if truthy (parentNodePath a)
              then [(''parentNodePath'', JStr (str (parentNodePath a)))] else [])
           @ (case properties a of
                None \<Rightarrow> []
              | Some j \<Rightarrow> if json_truthy j then [(''properties'', j)] else []))"

definition handleAddNode ::
  "world \<Rightarrow> OperationExecutorImpl \<Rightarrow> args \<Rightarrow> effect list \<times> ToolResponse promise" where
  "handleAddNode w ex a =
     (if \<not> truthy (projectPath a) \<or> \<not> truthy (scenePath a)
           \<or> \<not> truthy (nodeType a) \<or> \<not> truthy (nodeName a)
      then ([], Resolved (createErrorResponse ''Missing required parameters''
              [''Provide projectPath, scenePath, nodeType, and nodeName'']))
      else
        case first_failure
               [validateProjectPath (str (projectPath a)),
                validateProjectPath (str (scenePath a)),
                validateProjectDirectory w (str (projectPath a)),
                validateFileExists w
                  (path_join w (str (projectPath a)) (str (scenePath a)))] of
          Some e \<Rightarrow> ([], Rejected e)
        | None \<Rightarrow>
            (case executeOperation w ex ''add_node'' (add_node_params a)
                    (str (projectPath a)) of
               (effs, Resolved r) \<Rightarrow>
                 (effs,
                  if exitCode r \<noteq> 0 \<or> stderr r \<noteq> []
                  then Resolved (createErrorResponse
                         (''Failed to add node: '' @ stderr_or_unknown r)
                         [''Check if the node type is valid'',
                          ''Ensure the parent node path exists'',
                          ''Verify the scene file is valid''])
                  else Resolved (success
                         (''Node '' @ [squote] @ str (nodeName a) @ [squote] @ '' of type ''
                            @ [squote] @ str (nodeType a) @ [squote]
                            @ '' added successfully to '' @ [squote] @ str (scenePath a)
                            @ [squote] @ ''.'' @ [newline, newline] @ ''Output: ''
                            @ stdout r)))
             | (effs, Rejected e) \<Rightarrow>
                 (effs, Resolved (createErrorResponse
                    (''Failed to add node: '' @ message_or_unknown w e)
                    catch_suggestions))
             | (effs, Pending) \<Rightarrow> (effs, Pending)))"

definition save_scene_params :: "args \<Rightarrow> json" where
  "save_scene_params a =
     JObj ([(''scenePath'', JStr (str (scenePath a)))]
           @ (if truthy (newPath a) then [(''newPath'', JStr (str (newPath a)))] else []))"

definition handleSaveScene ::
  "world \<Rightarrow> OperationExecutorImpl \<Rightarrow> args \<Rightarrow> effect list \<times> ToolResponse promise" where
  "handleSaveScene w ex a =
     (if \<not> truthy (projectPath a) \<or> \<not> truthy (scenePath a)
      then ([], Resolved (createErrorResponse ''Missing required parameters''
              [''Provide projectPath and scenePath'']))
      else
        case first_failure
               [validateProjectPath (str (projectPath a)),
                validateProjectPath (str (scenePath a))] of
          Some e \<Rightarrow> ([], Rejected e)
        | None \<Rightarrow>
            if truthy (newPath a) \<and> \<not> validatePath (str (newPath a))
            then ([], Resolved (createErrorResponse ''Invalid new path''
                    [''Provide a valid new path without '' @ [dquote] @ ''..'' @ [dquote]
                       @ '' or other potentially unsafe characters'']))
            else
              (case first_failure
                      [validateProjectDirectory w (str (projectPath a)),
                       validateFileExists w
                         (path_join w (str (projectPath a)) (str (scenePath a)))] of
                 Some e \<Rightarrow> ([], Rejected e)
               | None \<Rightarrow>
                   (case executeOperation w ex ''save_scene'' (save_scene_params a)
                           (str (projectPath a)) of
                      (effs, Resolved r) \<Rightarrow>
                        (effs,
                         if exitCode r \<noteq> 0 \<or> stderr r \<noteq> []
                         then Resolved (createErrorResponse
                                (''Failed to save scene: '' @ stderr_or_unknown r)
                                [''Check if the scene file is valid'',
                                 ''Ensure you have write permissions to the output path'',
                                 ''Verify the scene can be properly packed''])
                         else Resolved (success
                                (''Scene saved successfully to: ''
                                   @ or_else (newPath a) (str (scenePath a))
                                   @ [newline, newline] @ ''Output: '' @ stdout r)))
                    | (effs, Rejected e) \<Rightarrow>
                        (effs, Resolved (createErrorResponse
                           (''Failed to save scene: '' @ message_or_unknown w e)
                           catch_suggestions))
                    | (effs, Pending) \<Rightarrow> (effs, Pending))))"

section \<open>The resource handler (\<open>handlers/resource-handler.ts\<close>)\<close>

definition load_sprite_params :: "args \<Rightarrow> json" where
  "load_sprite_params a =
     JObj [(''scenePath'', JStr (str (scenePath a))),
           (''nodePath'', JStr (str (nodePath a))),
           (''texturePath'', JStr (str (texturePath a)))]"

definition handleLoadSprite ::
  "world \<Rightarrow> OperationExecutorImpl \<Rightarrow> args \<Rightarrow> effect list \<times> ToolResponse promise" where
  "handleLoadSprite w ex a =
     (if \<not> truthy (projectPath a) \<or> \<not> truthy (scenePath a)
           \<or> \<not> truthy (nodePath a) \<or> \<not> truthy (texturePath a)
      then ([], Resolved (createErrorResponse ''Missing required parameters''
              [''Provide projectPath, scenePath, nodePath, and texturePath'']))
      else
        case first_failure
               [validateProjectPath (str (projectPath a)),
                validateProjectPath (str (scenePath a)),
                validateProjectPath (str (nodePath a)),
                validateProjectPath (str (texturePath a)),
                validateProjectDirectory w (str (projectPath a)),
                validateFileExists w
                  (path_join w (str (projectPath a)) (str (scenePath a))),
                validateFileExists w
                  (path_join w (str (projectPath a)) (str (texturePath a)))] of
          Some e \<Rightarrow> ([], Rejected e)
        | None \<Rightarrow>
            (case executeOperation w ex ''load_sprite'' (load_sprite_params a)
                    (str (projectPath a)) of
               (effs, Resolved r) \<Rightarrow>
                 (effs,
                  if exitCode r \<noteq> 0 \<or> stderr r \<noteq> []
                  then Resolved (createErrorResponse
                         (''Failed to load sprite: '' @ stderr_or_unknown r)
                         [''Check if the node path is correct'',
                          ''Ensure the node is a Sprite2D, Sprite3D, or TextureRect'',
                          ''Verify the texture file is a valid image format''])
                  else Resolved (success
                         (''Sprite loaded successfully with texture: ''
                            @ str (texturePath a)
                            @ [newline, newline] @ ''Output: '' @ stdout r)))
             | (effs, Rejected e) \<Rightarrow>
                 (effs, Resolved (createErrorResponse
                    (''Failed to load sprite: '' @ message_or_unknown w e)
                    catch_suggestions))
             | (effs, Pending) \<Rightarrow> (effs, Pending)))"

definition export_mesh_library_params :: "args \<Rightarrow> json" where
  "export_mesh_library_params a =
     JObj ([(''scenePath'', JStr (str (scenePath a))),
            (''outputPath'', JStr (str (outputPath a)))]
           @ (case meshItemNames a of
                None \<Rightarrow> []
              | Some j \<Rightarrow>
                  if json_truthy j \<and> isArray j then [(''meshItemNames'', j)] else []))"

definition handleExportMeshLibrary ::
  "world \<Rightarrow> OperationExecutorImpl \<Rightarrow> args \<Rightarrow> effect list \<times> ToolResponse promise" where
  "handleExportMeshLibrary w ex a =
     (if \<not> truthy (projectPath a) \<or> \<not> truthy (scenePath a) \<or> \<not> truthy (outputPath a)
      then ([], Resolved (createErrorResponse ''Missing required parameters''
              [''Provide projectPath, scenePath, and outputPath'']))
      else
        case first_failure
               [validateProjectPath (str (projectPath a)),
                validateProjectPath (str (scenePath a)),
                validateProjectPath (str (outputPath a)),
                validateProjectDirectory w (str (projectPath a)),
                validateFileExists w
                  (path_join w (str (projectPath a)) (str (scenePath a)))] of
          Some e \<Rightarrow> ([], Rejected e)
        | None \<Rightarrow>
            (case executeOperation w ex ''export_mesh_library''
                    (export_mesh_library_params a) (str (projectPath a)) of
               (effs, Resolved r) \<Rightarrow>
                 (effs,
                  if exitCode r \<noteq> 0 \<or> stderr r \<noteq> []
                  then Resolved (createErrorResponse
                         (''Failed to export mesh library: '' @ stderr_or_unknown r)
                         [''Check if the scene contains valid 3D meshes'',
                          ''Ensure the output path is valid'',
                          ''Verify the scene file is valid''])
                  else Resolved (success
                         (''MeshLibrary exported successfully to: ''
                            @ str (outputPath a)
                            @ [newline, newline] @ ''Output: '' @ stdout r)))
             | (effs, Rejected e) \<Rightarrow>
                 (effs, Resolved (createErrorResponse
                    (''Failed to export mesh library: '' @ message_or_unknown w e)
                    catch_suggestions))
             | (effs, Pending) \<Rightarrow> (effs, Pending)))"

section \<open>The UID handler (class \<open>UidHandler\<close>)\<close>

definition is_digit :: "char \<Rightarrow> bool" where
  "is_digit c = (c \<in> set ''0123456789'')"

text \<open>\<open>parseInt(digits, 10)\<close> on a run of decimal digits.\<close>

definition parseInt :: "string \<Rightarrow> nat" where
  "parseInt ds = foldl (\<lambda>n c. 10 * n + (of_char c - 48)) 0 ds"

text \<open>
  \<open>version.match(/^(\d+)\.(\d+)/)\<close>: the two runs of digits at the start of the string, with
  a dot between them.
\<close>

definition version_match :: "string \<Rightarrow> (string \<times> string) option" where
  "version_match version =
     (let major = takeWhile is_digit version in
      if major = [] then None
      else
        case dropWhile is_digit version of
          [] \<Rightarrow> None
        | c # rest \<Rightarrow>
            if c \<noteq> CHR ''.'' then None
            else
              let minor = takeWhile is_digit rest in
              if minor = [] then None else Some (major, minor))"

definition isGodot44OrLater :: "string \<Rightarrow> bool" where
  "isGodot44OrLater version =
     (case version_match version of
        Some (m1, m2) \<Rightarrow>
          let major = parseInt m1; minor = parseInt m2 in
          major > 4 \<or> (major = 4 \<and> minor \<ge> 4)
      | None \<Rightarrow> False)"

text \<open>The command line of the version probe: the executable in double quotes.\<close>

definition version_command :: "world \<Rightarrow> string" where
  "version_command w = [dquote] @ str (getGodotPath w) @ [dquote] @ '' --version''"

definition uids_unsupported :: "string \<Rightarrow> ToolResponse" where
  "uids_unsupported version =
     createErrorResponse
       (''UIDs are only supported in Godot 4.4 or later. Current version: '' @ version)
       [''Upgrade to Godot 4.4 or later to use UIDs'',
        ''Use resource paths instead of UIDs for this version of Godot'']"

definition get_uid_params :: "args \<Rightarrow> json" where
  "get_uid_params a = JObj [(''filePath'', JStr (str (filePath a)))]"

definition handleGetUid ::
  "world \<Rightarrow> OperationExecutorImpl \<Rightarrow> args \<Rightarrow> effect list \<times> ToolResponse promise" where
  "handleGetUid w ex a =
     (if \<not> truthy (projectPath a) \<or> \<not> truthy (filePath a)
      then ([], Resolved (createErrorResponse ''Missing required parameters''
              [''Provide projectPath and filePath'']))
      else
        case first_failure
               [validateProjectPath (str (projectPath a)),
                validateProjectPath (str (filePath a)),
                validateProjectDirectory w (str (projectPath a)),
                validateFileExists w
                  (path_join w (str (projectPath a)) (str (filePath a)))] of
          Some e \<Rightarrow> ([], Rejected e)
        | None \<Rightarrow>
            if \<not> truthy (getGodotPath w) then ([], Resolved no_godot_path)
            else
              (case execAsync w (version_command w) of
                 Rejected e \<Rightarrow>
                   ([Exec (version_command w)],
                    Resolved (createErrorResponse
                      (''Failed to get UID: '' @ message_or_unknown w e) catch_suggestions))
               | Pending \<Rightarrow> ([Exec (version_command w)], Pending)
               | Resolved versionOutput \<Rightarrow>
                   if \<not> isGodot44OrLater (trim versionOutput)
                   then ([Exec (version_command w)],
                         Resolved (uids_unsupported (trim versionOutput)))
                   else
                     (case executeOperation w ex ''get_uid'' (get_uid_params a)
                             (str (projectPath a)) of
                        (effs, Resolved r) \<Rightarrow>
                          (Exec (version_command w) # effs,
                           if exitCode r \<noteq> 0 \<or> stderr r \<noteq> []
                           then Resolved (createErrorResponse
                                  (''Failed to get UID: '' @ stderr_or_unknown r)
                                  [''Check if the file is a valid Godot resource'',
                                   ''Ensure the file path is correct''])
                           else Resolved (success
                                  (''UID for '' @ str (filePath a) @ '': ''
                                     @ trim (stdout r))))
                      | (effs, Rejected e) \<Rightarrow>
                          (Exec (version_command w) # effs,
                           Resolved (createErrorResponse
                             (''Failed to get UID: '' @ message_or_unknown w e)
                             catch_suggestions))
                      | (effs, Pending) \<Rightarrow> (Exec (version_command w) # effs, Pending))))"

definition update_project_uids_params :: "args \<Rightarrow> json" where
  "update_project_uids_params a = JObj [(''projectPath'', JStr (str (projectPath a)))]"

definition handleUpdateProjectUids ::
  "world \<Rightarrow> OperationExecutorImpl \<Rightarrow> args \<Rightarrow> effect list \<times> ToolResponse promise" where
  "handleUpdateProjectUids w ex a =
     (if \<not> truthy (projectPath a)
      then ([], Resolved (createErrorResponse ''Project path is required''
              [''Provide a valid path to a Godot project directory'']))
      else
        case first_failure
               [validateProjectPath (str (projectPath a)),
                validateProjectDirectory w (str (projectPath a))] of
          Some e \<Rightarrow> ([], Rejected e)
        | None \<Rightarrow>
            if \<not> truthy (getGodotPath w) then ([], Resolved no_godot_path)
            else
              (case execAsync w (version_command w) of
                 Rejected e \<Rightarrow>
                   ([Exec (version_command w)],
                    Resolved (createErrorResponse
                      (''Failed to update project UIDs: '' @ message_or_unknown w e)
                      catch_suggestions))
               | Pending \<Rightarrow> ([Exec (version_command w)], Pending)
               | Resolved versionOutput \<Rightarrow>
                   if \<not> isGodot44OrLater (trim versionOutput)
                   then ([Exec (version_command w)],
                         Resolved (uids_unsupported (trim versionOutput)))
                   else
                     (case executeOperation w ex ''resave_resources''
                             (update_project_uids_params a) (str (projectPath a)) of
                        (effs, Resolved r) \<Rightarrow>
                          (Exec (version_command w) # effs,
                           if exitCode r \<noteq> 0 \<or> stderr r \<noteq> []
                           then Resolved (createErrorResponse
                                  (''Failed to update project UIDs: '' @ stderr_or_unknown r)
                                  [''Check if the project is valid'',
                                   ''Ensure you have write permissions to the project directory''])
                           else Resolved (success
                                  (''Project UIDs updated successfully.''
                                     @ [newline, newline] @ ''Output: '' @ stdout r)))
                      | (effs, Rejected e) \<Rightarrow>
                          (Exec (version_command w) # effs,
                           Resolved (createErrorResponse
                             (''Failed to update project UIDs: '' @ message_or_unknown w e)
                             catch_suggestions))
                      | (effs, Pending) \<Rightarrow> (Exec (version_command w) # effs, Pending))))"

section \<open>The editor handler (\<open>handlers/editor-handler.ts\<close>)\<close>

text \<open>
  A promise that resolves with \<open>ok\<close> on the child's \<open>spawn\<close> event and rejects with the
  response \<open>err m\<close> on its \<open>error\<close> event, whichever comes first.
\<close>

fun await_spawn ::
  "child_event list \<Rightarrow> ToolResponse \<Rightarrow> (string \<Rightarrow> ToolResponse) \<Rightarrow> ToolResponse promise" where
  "await_spawn [] ok err = Pending"
| "await_spawn (Spawned # es) ok err = Resolved ok"
| "await_spawn (Failed m # es) ok err = Rejected (ThrownResponse (err m))"
| "await_spawn (e # es) ok err = await_spawn es ok err"

definition handleLaunchEditor :: "world \<Rightarrow> args \<Rightarrow> effect list \<times> ToolResponse promise" where
  "handleLaunchEditor w a =
     (if \<not> truthy (projectPath a)
      then ([], Resolved (createErrorResponse ''Project path is required''
              [''Provide a valid path to a Godot project directory'']))
      else
        case first_failure
               [validateProjectPath (str (projectPath a)),
                validateProjectDirectory w (str (projectPath a))] of
          Some e \<Rightarrow> ([], Rejected e)
        | None \<Rightarrow>
            if \<not> truthy (getGodotPath w) then ([], Resolved no_godot_path)
            else
              ([Spawn (str (getGodotPath w)) [''-e'', ''--path'', str (projectPath a)]],
               await_spawn
                 (child_events w (str (getGodotPath w))
                    [''-e'', ''--path'', str (projectPath a)])
                 (success (''Godot editor launched successfully for project at ''
                    @ str (projectPath a) @ ''.''))
                 (\<lambda>m. createErrorResponse (''Failed to launch Godot editor: '' @ m)
                        catch_suggestions)))"

definition handleGetGodotVersion :: "world \<Rightarrow> effect list \<times> ToolResponse promise" where
  "handleGetGodotVersion w =
     (if \<not> truthy (getGodotPath w) then ([], Resolved no_godot_path)
      else
        ([Exec (version_command w)],
         case execAsync w (version_command w) of
           Resolved out \<Rightarrow> Resolved (success (trim out))
         | Rejected e \<Rightarrow>
             Resolved (createErrorResponse
               (''Failed to get Godot version: '' @ error_message w e)
               [''Ensure Godot is installed correctly'',
                ''Check if the GODOT_PATH environment variable is set correctly''])
         | Pending \<Rightarrow> Pending))"

section \<open>The info handler (class \<open>InfoHandler\<close>)\<close>

text \<open>
  The scans of the file system (\<open>findGodotProjects\<close>, \<open>getProjectStructureAsync\<close>, the
  project's name) are functions of the world; both catch every error of their own.
\<close>

definition handleListProjects :: "world \<Rightarrow> args \<Rightarrow> effect list \<times> ToolResponse promise" where
  "handleListProjects w a =
     (if \<not> truthy (directory a)
      then ([], Resolved (createErrorResponse ''Directory is required''
              [''Provide a valid directory path to search for Godot projects'']))
      else
        case validateProjectPath (str (directory a)) of
          Some e \<Rightarrow> ([], Rejected e)
        | None \<Rightarrow>
            if \<not> existsSync w (str (directory a))
            then ([], Resolved (createErrorResponse
                    (''Directory does not exist: '' @ str (directory a))
                    [''Provide a valid directory path that exists on the system'']))
            else
              ([], Resolved (success
                 (JSON_stringify w 2
                    (findGodotProjects w (str (directory a))
                       (recursive a = Some (JBool True)))))))"

text \<open>
  The version probe of \<open>handleGetProjectInfo\<close> has a timeout of ten seconds: a probe that
  would never settle is killed, and its promise rejects.
\<close>

definition execAsync_timeout :: "world \<Rightarrow> string \<Rightarrow> string promise" where
  "execAsync_timeout w cmd =
     (case execAsync w cmd of
        Pending \<Rightarrow> Rejected (Error (''Command failed: '' @ cmd))
      | p \<Rightarrow> p)"

definition handleGetProjectInfo :: "world \<Rightarrow> args \<Rightarrow> effect list \<times> ToolResponse promise" where
  "handleGetProjectInfo w a =
     (if \<not> truthy (projectPath a)
      then ([], Resolved (createErrorResponse ''Project path is required''
              [''Provide a valid path to a Godot project directory'']))
      else
        case first_failure
               [validateProjectPath (str (projectPath a)),
                validateProjectDirectory w (str (projectPath a))] of
          Some e \<Rightarrow> ([], Rejected e)
        | None \<Rightarrow>
            if \<not> truthy (getGodotPath w) then ([], Resolved no_godot_path)
            else
              ([Exec (version_command w)],
               case execAsync_timeout w (version_command w) of
                 Resolved out \<Rightarrow>
                   Resolved (success
                     (JSON_stringify w 2
                        (JObj [(''name'', JStr (projectName w (str (projectPath a)))),
                               (''path'', JStr (str (projectPath a))),
                               (''godotVersion'', JStr (trim out)),
                               (''structure'',
                                  getProjectStructureAsync w (str (projectPath a)))])))
               | Rejected e \<Rightarrow>
                   Resolved (createErrorResponse
                     (''Failed to get project info: '' @ message_or_unknown w e)
                     catch_suggestions)
               | Pending \<Rightarrow> Pending))"

section \<open>The project handler (class \<open>ProjectHandler\<close>)\<close>

text \<open>
  The handler's \<open>activeProcess\<close> field holds references: to the child process object and
  to the two arrays that the listeners of that child append to. The arrays live in a
  store, so that what the listeners write is what the handler reads through the field.
  A child process object is named by its index in the list of the children that
  \<open>handleRunProject\<close> has started. The fields \<open>output\<close> and \<open>errors\<close> of \<open>GodotProcess\<close>
  are \<open>output_array\<close> and \<open>errors_array\<close> here.
\<close>

datatype ref = Out_ref nat | Err_ref nat

record GodotProcess =
  process :: nat
  output_array :: ref
  errors_array :: ref

text \<open>
  What the closure of one \<open>handleRunProject\<close> call holds: its two arrays, whether the
  \<open>once\<close> listeners for \<open>spawn\<close> and \<open>error\<close> are still registered, and the state of the
  promise the call returned.
\<close>

record child =
  c_output :: ref
  c_errors :: ref
  spawn_listener :: bool
  error_listener :: bool
  settled :: "ToolResponse promise"

record server_state =
  activeProcess :: "GodotProcess option"
  arrays :: "ref \<Rightarrow> string list"
  children :: "child list"
  log :: "effect list"

definition initial_state :: server_state where
  "initial_state = \<lparr>activeProcess = None, arrays = (\<lambda>r. []), children = [], log = []\<rparr>"

text \<open>
  What a handler call returns: a promise whose state is known (\<open>Now\<close>), or the promise
  of the child with the given index (\<open>Later\<close>), whose state is in \<open>settled\<close> and changes
  when that child reports.
\<close>

datatype outcome = Now "ToolResponse promise" | Later nat

text \<open>\<open>resolve\<close> and \<open>reject\<close> change a promise that is still pending, and no other.\<close>

definition resolve :: "'a promise \<Rightarrow> 'a \<Rightarrow> 'a promise" where
  "resolve p v = (case p of Pending \<Rightarrow> Resolved v | q \<Rightarrow> q)"

definition reject :: "'a promise \<Rightarrow> thrown \<Rightarrow> 'a promise" where
  "reject p e = (case p of Pending \<Rightarrow> Rejected e | q \<Rightarrow> q)"

text \<open>
  The argument vector of the supervised run. \<open>kill\<close> and \<open>spawn\<close> report a failure by an
  event, so the \<open>catch\<close> clause of \<open>handleRunProject\<close> for a synchronous exception has no
  branch here.
\<close>

definition run_project_args :: "args \<Rightarrow> string list" where
  "run_project_args a =
     [''-d'', ''--path'', str (projectPath a)]
     @ (if truthy (scene a) \<and> validatePath (str (scene a)) then [str (scene a)] else [])"

definition handleRunProject :: "world \<Rightarrow> args \<Rightarrow> server_state \<Rightarrow> outcome \<times> server_state" where
  "handleRunProject w a s =
     (if \<not> truthy (projectPath a)
      then (Now (Resolved (createErrorResponse ''Project path is required''
              [''Provide a valid path to a Godot project directory''])), s)
      else
        case first_failure
               [validateProjectPath (str (projectPath a)),
                validateProjectDirectory w (str (projectPath a))] of
          Some e \<Rightarrow> (Now (Rejected e), s)
        | None \<Rightarrow>
            if \<not> truthy (getGodotPath w) then (Now (Resolved no_godot_path), s)
            else
              let s1 = (case activeProcess s of
                          Some gp \<Rightarrow> s\<lparr>log := log s @ [Kill (process gp)]\<rparr>
                        | None \<Rightarrow> s);
                  p = length (children s1)
              in (Later p,
                  s1\<lparr>children := children s1 @
                        [\<lparr>c_output = Out_ref p, c_errors = Err_ref p,
                          spawn_listener = True, error_listener = True,
                          settled = Pending\<rparr>],
                      arrays := (arrays s1)(Out_ref p := [], Err_ref p := []),
                      log := log s1 @ [Spawn (str (getGodotPath w)) (run_project_args a)]\<rparr>))"

text \<open>The listeners that \<open>handleRunProject\<close> registers on the child \<open>p\<close>.\<close>

definition on_stdout :: "nat \<Rightarrow> string \<Rightarrow> server_state \<Rightarrow> server_state" where
  "on_stdout p d s =
     (if p < length (children s)
      then let r = c_output (children s ! p)
           in s\<lparr>arrays := (arrays s)(r := arrays s r @ split_str d newline)\<rparr>
      else s)"

definition on_stderr :: "nat \<Rightarrow> string \<Rightarrow> server_state \<Rightarrow> server_state" where
  "on_stderr p d s =
     (if p < length (children s)
      then let r = c_errors (children s ! p)
           in s\<lparr>arrays := (arrays s)(r := arrays s r @ split_str d newline)\<rparr>
      else s)"

definition clear_if_active :: "nat \<Rightarrow> server_state \<Rightarrow> server_state" where
  "clear_if_active p s =
     (case activeProcess s of
        Some gp \<Rightarrow> if process gp = p then s\<lparr>activeProcess := None\<rparr> else s
      | None \<Rightarrow> s)"

definition on_exit :: "nat \<Rightarrow> int option \<Rightarrow> server_state \<Rightarrow> server_state" where
  "on_exit p code s = (if p < length (children s) then clear_if_active p s else s)"

definition on_spawn :: "nat \<Rightarrow> server_state \<Rightarrow> server_state" where
  "on_spawn p s =
     (if p < length (children s) \<and> spawn_listener (children s ! p)
      then
        let c = children s ! p
        in s\<lparr>activeProcess :=
               Some \<lparr>process = p, output_array = c_output c, errors_array = c_errors c\<rparr>,
             children := (children s)
               [p := c\<lparr>spawn_listener := False,
                       settled := resolve (settled c)
                         (success ''Godot project started in debug mode. Use get_debug_output to see output.'')\<rparr>]\<rparr>
      else s)"

definition on_error :: "nat \<Rightarrow> string \<Rightarrow> server_state \<Rightarrow> server_state" where
  "on_error p m s =
     (if p < length (children s) \<and> error_listener (children s ! p)
      then
        let s1 = clear_if_active p s; c = children s1 ! p
        in s1\<lparr>children := (children s1)
               [p := c\<lparr>error_listener := False,
                       settled := reject (settled c)
                         (ThrownResponse (createErrorResponse
                            (''Failed to run Godot project: '' @ m) catch_suggestions))\<rparr>]\<rparr>
      else s)"

definition no_active_process :: ToolResponse where
  "no_active_process =
     createErrorResponse ''No active Godot process.''
       [''Use run_project to start a Godot project first'',
        ''Check if the Godot process crashed unexpectedly'']"

definition handleGetDebugOutput :: "world \<Rightarrow> server_state \<Rightarrow> ToolResponse promise" where
  "handleGetDebugOutput w s =
     (case activeProcess s of
        None \<Rightarrow> Resolved no_active_process
      | Some gp \<Rightarrow>
          Resolved (success (JSON_stringify w 2
            (JObj [(''output'', JArr (map JStr (arrays s (output_array gp)))),
                   (''errors'', JArr (map JStr (arrays s (errors_array gp))))]))))"

definition handleStopProject :: "world \<Rightarrow> server_state \<Rightarrow> ToolResponse promise \<times> server_state" where
  "handleStopProject w s =
     (case activeProcess s of
        None \<Rightarrow>
          (Resolved (createErrorResponse ''No active Godot process to stop.''
             [''Use run_project to start a Godot project first'',
              ''The process may have already terminated'']), s)
      | Some gp \<Rightarrow>
          (Resolved (success (JSON_stringify w 2
             (JObj [(''message'', JStr ''Godot project stopped''),
                    (''finalOutput'', JArr (map JStr (arrays s (output_array gp)))),
                    (''finalErrors'', JArr (map JStr (arrays s (errors_array gp))))]))),
           s\<lparr>activeProcess := None, log := log s @ [Kill (process gp)]\<rparr>))"

section \<open>The server (\<open>server.ts\<close>)\<close>

text \<open>A handler without state of its own: its effects go to the log.\<close>

definition stateless ::
  "effect list \<times> ToolResponse promise \<Rightarrow> server_state \<Rightarrow> outcome \<times> server_state" where
  "stateless r s = (Now (snd r), s\<lparr>log := log s @ fst r\<rparr>)"

text \<open>
  The \<open>switch\<close> of the request handler for tool calls: the promise of the handler that
  the tool's name selects, and a thrown \<open>McpError\<close> for any other name.
\<close>

definition tool_switch ::
  "world \<Rightarrow> OperationExecutorImpl \<Rightarrow> string \<Rightarrow> args \<Rightarrow> server_state
     \<Rightarrow> outcome \<times> server_state" where
  "tool_switch w ex name a s =
     (if name = ''launch_editor'' then stateless (handleLaunchEditor w a) s
      else if name = ''get_godot_version'' then stateless (handleGetGodotVersion w) s
      else if name = ''run_project'' then handleRunProject w a s
      else if name = ''get_debug_output'' then (Now (handleGetDebugOutput w s), s)
      else if name = ''stop_project''
        then (Now (fst (handleStopProject w s)), snd (handleStopProject w s))
      else if name = ''list_projects'' then stateless (handleListProjects w a) s
      else if name = ''get_project_info'' then stateless (handleGetProjectInfo w a) s
      else if name = ''create_scene'' then stateless (handleCreateScene w ex a) s
      else if name = ''add_node'' then stateless (handleAddNode w ex a) s
      else if name = ''save_scene'' then stateless (handleSaveScene w ex a) s
      else if name = ''load_sprite'' then stateless (handleLoadSprite w ex a) s
      else if name = ''export_mesh_library''
        then stateless (handleExportMeshLibrary w ex a) s
      else if name = ''get_uid'' then stateless (handleGetUid w ex a) s
      else if name = ''update_project_uids''
        then stateless (handleUpdateProjectUids w ex a) s
      else (Now (Rejected (McpError (''Unknown tool: '' @ name))), s))"

text \<open>
  The \<open>try\<close> and \<open>catch\<close> around the \<open>switch\<close>: the awaited promise's response is
  returned, a rejection is turned into an error response.
\<close>

definition catch_all :: "world \<Rightarrow> ToolResponse promise \<Rightarrow> ToolResponse promise" where
  "catch_all w p =
     (case p of
        Resolved r \<Rightarrow> Resolved r
      | Rejected e \<Rightarrow>
          Resolved (createErrorResponse (''Tool execution failed: '' @ error_message w e)
            [''Check the tool parameters and try again''])
      | Pending \<Rightarrow> Pending)"

text \<open>The state, in the server state \<open>s\<close>, of the promise that a handler returned.\<close>

definition handler_promise :: "server_state \<Rightarrow> outcome \<Rightarrow> ToolResponse promise" where
  "handler_promise s oc = (case oc of Now p \<Rightarrow> p | Later c \<Rightarrow> settled (children s ! c))"

text \<open>
  The state, in the server state \<open>s\<close>, of the promise that the request handler returned
  for a call whose handler returned \<open>oc\<close>.
\<close>

definition tool_call_result :: "world \<Rightarrow> server_state \<Rightarrow> outcome \<Rightarrow> ToolResponse promise" where
  "tool_call_result w s oc = catch_all w (handler_promise s oc)"

text \<open>What happens in the server, one event at a time.\<close>

datatype event =
    Call string args
  | Spawn_event nat
  | Error_event nat string
  | Stdout_event nat string
  | Stderr_event nat string
  | Exit_event nat "int option"

fun step :: "world \<Rightarrow> OperationExecutorImpl \<Rightarrow> server_state \<Rightarrow> event \<Rightarrow> server_state" where
  "step w ex s (Call name a) = snd (tool_switch w ex name a s)"
| "step w ex s (Spawn_event p) = on_spawn p s"
| "step w ex s (Error_event p m) = on_error p m s"
| "step w ex s (Stdout_event p d) = on_stdout p d s"
| "step w ex s (Stderr_event p d) = on_stderr p d s"
| "step w ex s (Exit_event p code) = on_exit p code s"

definition run :: "world \<Rightarrow> OperationExecutorImpl \<Rightarrow> server_state \<Rightarrow> event list \<Rightarrow> server_state" where
  "run w ex s evs = foldl (step w ex) s evs"

text \<open>
  The references of a state are in order: the closure of child \<open>i\<close> holds the arrays
  made for child \<open>i\<close>, and so does the active process.
\<close>

definition wf :: "server_state \<Rightarrow> bool" where
  "wf s =
     ((\<forall>i < length (children s).
         c_output (children s ! i) = Out_ref i
         \<and> c_errors (children s ! i) = Err_ref i)
      \<and> (case activeProcess s of
           None \<Rightarrow> True
         | Some gp \<Rightarrow>
             process gp < length (children s)
             \<and> output_array gp = Out_ref (process gp)
             \<and> errors_array gp = Err_ref (process gp)))"

text \<open>
  The lines that the listeners of child \<open>p\<close> append for the data events of a run, in
  order of arrival.
\<close>

fun output_fragments :: "nat \<Rightarrow> event \<Rightarrow> string list" where
  "output_fragments p (Stdout_event q d) = (if q = p then split_str d newline else [])"
| "output_fragments p ev = []"

fun errors_fragments :: "nat \<Rightarrow> event \<Rightarrow> string list" where
  "errors_fragments p (Stderr_event q d) = (if q = p then split_str d newline else [])"
| "errors_fragments p ev = []"

definition captured_output :: "nat \<Rightarrow> event list \<Rightarrow> string list" where
  "captured_output p evs = concat (map (output_fragments p) evs)"

definition captured_errors :: "nat \<Rightarrow> event list \<Rightarrow> string list" where
  "captured_errors p evs = concat (map (errors_fragments p) evs)"

text \<open>
  The events that can arrive while the child \<open>p\<close> starts and runs, when no further tool
  call is made: the \<open>spawn\<close> event of \<open>p\<close>, data of any child, and the \<open>exit\<close> and \<open>error\<close>
  events of the other children.
\<close>

fun start_event :: "nat \<Rightarrow> event \<Rightarrow> bool" where
  "start_event p (Call name a) = False"
| "start_event p (Spawn_event q) = (q = p)"
| "start_event p (Error_event q m) = (q \<noteq> p)"
| "start_event p (Exit_event q code) = (q \<noteq> p)"
| "start_event p (Stdout_event q d) = True"
| "start_event p (Stderr_event q d) = True"

text \<open>The response that the promise of a supervised run resolves with.\<close>

definition project_started :: ToolResponse where
  "project_started =
     success ''Godot project started in debug mode. Use get_debug_output to see output.''"

text \<open>
  Two stages of a supervised run of the child \<open>p\<close>. Starting: the child is made, its
  \<open>spawn\<close> listener waits, its promise is pending, and the slot is empty or still holds
  the process \<open>old\<close> that was active before. Started: the slot holds \<open>p\<close> with the arrays of
  \<open>p\<close>, and the promise has resolved.
\<close>

definition starting :: "nat \<Rightarrow> GodotProcess option \<Rightarrow> server_state \<Rightarrow> bool" where
  "starting p old s =
     (p < length (children s) \<and> spawn_listener (children s ! p)
      \<and> settled (children s ! p) = Pending
      \<and> (activeProcess s = None \<or> activeProcess s = old))"

definition started :: "nat \<Rightarrow> server_state \<Rightarrow> bool" where
  "started p s =
     (activeProcess s
        = Some \<lparr>process = p, output_array = Out_ref p, errors_array = Err_ref p\<rparr>
      \<and> p < length (children s)
      \<and> settled (children s ! p) = Resolved project_started)"

section \<open>The discrete operations\<close>

text \<open>The handlers that run one operation of the operations script each.\<close>

datatype discrete_tool =
    Create_scene
  | Add_node
  | Save_scene
  | Load_sprite
  | Export_mesh_library
  | Get_uid
  | Update_project_uids

fun discrete_handler ::
  "world \<Rightarrow> OperationExecutorImpl \<Rightarrow> discrete_tool \<Rightarrow> args
     \<Rightarrow> effect list \<times> ToolResponse promise" where
  "discrete_handler w ex Create_scene a = handleCreateScene w ex a"
| "discrete_handler w ex Add_node a = handleAddNode w ex a"
| "discrete_handler w ex Save_scene a = handleSaveScene w ex a"
| "discrete_handler w ex Load_sprite a = handleLoadSprite w ex a"
| "discrete_handler w ex Export_mesh_library a = handleExportMeshLibrary w ex a"
| "discrete_handler w ex Get_uid a = handleGetUid w ex a"
| "discrete_handler w ex Update_project_uids a = handleUpdateProjectUids w ex a"

text \<open>How the message of each handler's error response starts.\<close>

fun failure_prefix :: "discrete_tool \<Rightarrow> string" where
  "failure_prefix Create_scene = ''Failed to create scene: ''"
| "failure_prefix Add_node = ''Failed to add node: ''"
| "failure_prefix Save_scene = ''Failed to save scene: ''"
| "failure_prefix Load_sprite = ''Failed to load sprite: ''"
| "failure_prefix Export_mesh_library = ''Failed to export mesh library: ''"
| "failure_prefix Get_uid = ''Failed to get UID: ''"
| "failure_prefix Update_project_uids = ''Failed to update project UIDs: ''"

fun is_Spawn :: "effect \<Rightarrow> bool" where
  "is_Spawn (Spawn cmd argv) = True"
| "is_Spawn e = False"

text \<open>The message of the configuration error that \<open>executeOperation\<close> throws.\<close>

definition config_error :: string where
  "config_error = ''Could not find a valid Godot executable path''"

text \<open>
  What the result \<open>h\<close> of a handler for a discrete operation satisfies: its response is
  built by \<open>createErrorResponse\<close>, or it is a success response for an operation that was
  run and ended with exit code 0 and nothing on \<open>stderr\<close>; the response to an operation
  that was run is built by \<open>createErrorResponse\<close> exactly when the exit code is not 0 or
  \<open>stderr\<close> is not empty; and nothing is spawned without an executable path.
\<close>

definition contract ::
  "world \<Rightarrow> OperationExecutorImpl \<Rightarrow> effect list \<times> ToolResponse promise \<Rightarrow> bool" where
  "contract w ex h =
     ((\<forall>resp. snd h = Resolved resp \<longrightarrow>
        (\<exists>m sols. resp = createErrorResponse m sols)
        \<or> (\<exists>t cmd argv r. resp = success t \<and> Spawn cmd argv \<in> set (fst h)
              \<and> collect (child_events w cmd argv) [] [] = Resolved r
              \<and> exitCode r = 0 \<and> stderr r = []))
      \<and> (\<forall>cmd argv r. Spawn cmd argv \<in> set (fst h)
             \<and> collect (child_events w cmd argv) [] [] = Resolved r \<longrightarrow>
             (if exitCode r \<noteq> 0 \<or> stderr r \<noteq> []
              then \<exists>m sols. snd h = Resolved (createErrorResponse m sols)
              else \<exists>t. snd h = Resolved (success t)))
      \<and> (\<not> truthy (godotPath ex) \<longrightarrow> (\<forall>e \<in> set (fst h). \<not> is_Spawn e)))"

section \<open>Concrete worlds and calls\<close>

definition no_args :: args where
  "no_args =
     \<lparr>projectPath = None, scenePath = None, rootNodeType = None, nodeType = None,
      nodeName = None, parentNodePath = None, properties = None, newPath = None,
      nodePath = None, texturePath = None, outputPath = None, meshItemNames = None,
      filePath = None, scene = None, directory = None, recursive = None\<rparr>"

text \<open>
  A world in which every file exists, Godot 4.4 is installed as \<open>godot\<close>, and a child
  behaves as \<open>evs\<close> says.
\<close>

definition demo_world :: "child_event list \<Rightarrow> world" where
  "demo_world evs =
     \<lparr>existsSync = (\<lambda>p. True),
      path_join = (\<lambda>d f. d @ ''/'' @ f),
      getGodotPath = Some ''godot'',
      execAsync = (\<lambda>cmd. Resolved ''4.4.1.stable''),
      child_events = (\<lambda>cmd argv. evs),
      convertCamelToSnakeCase = (\<lambda>j. j),
      JSON_stringify = (\<lambda>n j. ''{}''),
      McpError_message = (\<lambda>m. m),
      findGodotProjects = (\<lambda>d r. JArr []),
      getProjectStructureAsync = (\<lambda>d. JObj []),
      projectName = (\<lambda>d. d)\<rparr>"

definition demo_executor :: "string option \<Rightarrow> OperationExecutorImpl" where
  "demo_executor gp =
     \<lparr>operationsScriptPath = ''godot_operations.gd'', godotPath = gp,
      godotDebugMode = True, debugMode = False\<rparr>"

definition run_project_call :: "string option \<Rightarrow> args" where
  "run_project_call sc = no_args\<lparr>projectPath := Some ''game'', scene := sc\<rparr>"

text \<open>A state in which the child 0 is the active process, with one captured line.\<close>

definition running_state :: server_state where
  "running_state =
     \<lparr>activeProcess = Some \<lparr>process = 0, output_array = Out_ref 0, errors_array = Err_ref 0\<rparr>,
      arrays = (\<lambda>r. if r = Out_ref 0 then [''ready''] else []),
      children = [\<lparr>c_output = Out_ref 0, c_errors = Err_ref 0, spawn_listener = False,
                   error_listener = True, settled = Resolved project_started\<rparr>],
      log = [Spawn ''godot'' [''-d'', ''--path'', ''game'']]\<rparr>"

text \<open>
  A writer of JSON text: no white space, strings without escapes, integers in decimal.
  In \<open>text_world\<close> it stands for \<open>JSON.stringify\<close> at every indent, so that the text of a
  response shows the object it was made from.
\<close>

fun digits :: "nat \<Rightarrow> string" where
  "digits n =
     (if n < 10 then [char_of (48 + n)]
      else digits (n div 10) @ [char_of (48 + n mod 10)])"

fun render :: "json \<Rightarrow> string" where
  "render JNull = ''null''"
| "render (JBool b) = (if b then ''true'' else ''false'')"
| "render (JNum n) = (if n < 0 then ''-'' else []) @ digits (nat \<bar>n\<bar>)"
| "render (JStr s) = [dquote] @ s @ [dquote]"
| "render (JArr xs) = ''['' @ join_str (map render xs) (CHR '','') @ '']''"
| "render (JObj kvs) =
     ''{'' @ join_str
              (map (\<lambda>kv. [dquote] @ fst kv @ [dquote] @ '':'' @ render (snd kv)) kvs)
              (CHR '','')
       @ ''}''"

definition text_world :: world where
  "text_world = (demo_world [])\<lparr>JSON_stringify := (\<lambda>n j. render j)\<rparr>"

definition create_scene_call :: args where
  "create_scene_call = no_args\<lparr>projectPath := Some ''game'', scenePath := Some ''main.tscn''\<rparr>"

section \<open>The path validator\<close>

lemma str_includes_sublist: "str_includes s sub = sublist sub s"
  by (induction s) (auto simp: sublist_Cons_right)

text \<open>
  C7. A string that contains \<open>..\<close> is rejected, the empty string is rejected, and every
  other string is accepted.
\<close>

theorem validatePath_spec:
  "((\<exists>a b. p = a @ ''..'' @ b) \<longrightarrow> validatePath p = False)
   \<and> validatePath [] = False
   \<and> (p \<noteq> [] \<and> \<not> (\<exists>a b. p = a @ ''..'' @ b) \<longrightarrow> validatePath p = True)"
  by (simp add: validatePath_def str_includes_sublist sublist_def)

theorem validatePath_spec_witness:
  "validatePath ''scenes/../../etc/passwd'' = False
   \<and> validatePath [] = False
   \<and> validatePath ''scenes/main.tscn'' = True"
proof -
  have h1: "\<exists>a b. ''scenes/../../etc/passwd'' = a @ ''..'' @ b"
    by (rule exI [of _ "''scenes/''"], rule exI [of _ "''/../etc/passwd''"]) simp
  have "\<not> str_includes ''scenes/main.tscn'' ''..''" by simp
  then have h2: "\<not> (\<exists>a b. ''scenes/main.tscn'' = a @ ''..'' @ b)"
    unfolding str_includes_sublist sublist_def .
  have h3: "''scenes/main.tscn'' \<noteq> []" by simp
  from validatePath_spec [of "''scenes/../../etc/passwd''"] h1
  have a: "validatePath ''scenes/../../etc/passwd'' = False" by blast
  from validatePath_spec [of "''scenes/main.tscn''"] h2 h3
  have b: "validatePath ''scenes/main.tscn'' = True" by blast
  from validatePath_spec [of "[]"] have c: "validatePath [] = False" by blast
  from a b c show ?thesis by blast
qed

section \<open>The operation executor\<close>

lemma collect_prefix:
  "\<forall>e \<in> set pre. \<not> settles e \<Longrightarrow>
   collect (pre @ es) out err = collect es (out @ stdout_text pre) (err @ stderr_text pre)"
proof (induction pre arbitrary: out err)
  case Nil
  then show ?case by simp
next
  case (Cons e pre)
  then show ?case by (cases e) simp_all
qed

lemma executeOperation_cases:
  obtains (unresolved) "\<not> truthy (godotPath ex)"
      "executeOperation w ex operation params pp = ([], Rejected (Error config_error))"
  | (spawned) "truthy (godotPath ex)"
      "executeOperation w ex operation params pp
         = ([Spawn (str (godotPath ex)) (operation_args w ex operation params pp)],
            collect (child_events w (str (godotPath ex))
                      (operation_args w ex operation params pp)) [] [])"
  by (cases "truthy (godotPath ex)")
     (simp_all add: executeOperation_def Let_def config_error_def)

lemma executeOperation_unresolved:
  "\<not> truthy (godotPath ex) \<Longrightarrow>
   executeOperation w ex operation params pp = ([], Rejected (Error config_error))"
  by (simp add: executeOperation_def config_error_def)

lemma message_config_error: "message_or_unknown w (Error config_error) = config_error"
  by (simp add: message_or_unknown_def config_error_def)

lemma demo_child_events: "child_events (demo_world evs) cmd argv = evs"
  by (simp add: demo_world_def)

text \<open>
  C9. When the child closes before any error, the result carries the text of both
  streams and the code of the \<open>close\<close> event, with a null code turned into 0.
\<close>

theorem close_code_normalised:
  assumes "truthy (godotPath ex)"
    and "child_events w (str (godotPath ex)) (operation_args w ex operation params pp)
           = pre @ Closed code # post"
    and "\<forall>e \<in> set pre. \<not> settles e"
  shows "snd (executeOperation w ex operation params pp)
           = Resolved \<lparr>stdout = stdout_text pre, stderr = stderr_text pre,
                       exitCode = (case code of None \<Rightarrow> 0 | Some c \<Rightarrow> c)\<rparr>"
  using assms
  by (simp add: executeOperation_def Let_def collect_prefix code_or_zero_def
        split: option.splits)

theorem close_code_normalised_witness:
  "snd (executeOperation (demo_world [Spawned, Stdout_data ''ok'', Closed None])
          (demo_executor (Some ''godot'')) ''create_scene'' JNull ''game'')
     = Resolved \<lparr>stdout = ''ok'', stderr = [], exitCode = 0\<rparr>
   \<and> snd (executeOperation (demo_world [Spawned, Stderr_data ''bad'', Closed (Some 3)])
          (demo_executor (Some ''godot'')) ''create_scene'' JNull ''game'')
     = Resolved \<lparr>stdout = [], stderr = ''bad'', exitCode = 3\<rparr>"
  using close_code_normalised [of "demo_executor (Some ''godot'')"
          "demo_world [Spawned, Stdout_data ''ok'', Closed None]" "''create_scene''" JNull
          "''game''" "[Spawned, Stdout_data ''ok'']" None "[]"]
        close_code_normalised [of "demo_executor (Some ''godot'')"
          "demo_world [Spawned, Stderr_data ''bad'', Closed (Some 3)]" "''create_scene''" JNull
          "''game''" "[Spawned, Stderr_data ''bad'']" "Some 3" "[]"]
  by (simp add: demo_child_events demo_executor_def truthy_def)

text \<open>
  C4. With an executable path, the one \<open>spawn\<close> of \<open>executeOperation\<close> gets the headless
  flag, the path flag and the project path, the script flag and the operations script,
  the operation's name, the converted parameters as one JSON string, and the debug flag
  last when the Godot debug mode is on.
\<close>

theorem operation_argument_vector:
  assumes "truthy (godotPath ex)"
  shows "fst (executeOperation w ex operation params pp)
           = [Spawn (str (godotPath ex))
                ([''--headless'', ''--path'', pp, ''--script'', operationsScriptPath ex,
                  operation, JSON_stringify w 0 (convertCamelToSnakeCase w params)]
                 @ (if godotDebugMode ex then [''--debug-godot''] else []))]"
  using assms by (simp add: executeOperation_def operation_args_def Let_def)

theorem operation_argument_vector_witness:
  "fst (executeOperation (demo_world []) (demo_executor (Some ''godot'')) ''add_node''
          (JObj [(''nodeName'', JStr ''Player'')]) ''game'')
     = [Spawn ''godot'' [''--headless'', ''--path'', ''game'', ''--script'',
          ''godot_operations.gd'', ''add_node'', ''{}'', ''--debug-godot'']]"
  using operation_argument_vector [of "demo_executor (Some ''godot'')" "demo_world []"
          "''add_node''" "JObj [(''nodeName'', JStr ''Player'')]" "''game''"]
  by (simp add: demo_world_def demo_executor_def truthy_def str_def)

section \<open>The handlers of the discrete operations\<close>

lemma isError_createErrorResponse: "isError (createErrorResponse m sols) = Some True"
  by (simp add: createErrorResponse_def)

lemma isError_success: "isError (success t) = None"
  by (simp add: success_def)

lemma is_error_response: "\<exists>m sols. createErrorResponse a b = createErrorResponse m sols"
  by blast

lemma no_godot_path_is_error: "\<exists>m sols. no_godot_path = createErrorResponse m sols"
  unfolding no_godot_path_def by blast

lemma uids_unsupported_is_error: "\<exists>m sols. uids_unsupported v = createErrorResponse m sols"
  unfolding uids_unsupported_def by blast

lemma is_success: "\<exists>t. success a = success t"
  by blast

lemmas response_forms =
  is_error_response no_godot_path_is_error uids_unsupported_is_error is_success

lemma handleCreateScene_contract: "contract w ex (handleCreateScene w ex a)"
proof (cases rule: executeOperation_cases
         [of ex w "''create_scene''" "create_scene_params a" "str (projectPath a)"])
  case unresolved
  then show ?thesis
    by (auto simp add: contract_def handleCreateScene_def response_forms
          split: option.splits promise.splits)
next
  case spawned
  then show ?thesis
    by (auto simp add: contract_def handleCreateScene_def response_forms
          split: option.splits promise.splits)
qed

lemma handleAddNode_contract: "contract w ex (handleAddNode w ex a)"
proof (cases rule: executeOperation_cases
         [of ex w "''add_node''" "add_node_params a" "str (projectPath a)"])
  case unresolved
  then show ?thesis
    by (auto simp add: contract_def handleAddNode_def response_forms
          split: option.splits promise.splits)
next
  case spawned
  then show ?thesis
    by (auto simp add: contract_def handleAddNode_def response_forms
          split: option.splits promise.splits)
qed

lemma handleSaveScene_contract: "contract w ex (handleSaveScene w ex a)"
proof (cases rule: executeOperation_cases
         [of ex w "''save_scene''" "save_scene_params a" "str (projectPath a)"])
  case unresolved
  then show ?thesis
    by (auto simp add: contract_def handleSaveScene_def response_forms
          split: option.splits promise.splits)
next
  case spawned
  then show ?thesis
    by (auto simp add: contract_def handleSaveScene_def response_forms
          split: option.splits promise.splits)
qed

lemma handleLoadSprite_contract: "contract w ex (handleLoadSprite w ex a)"
proof (cases rule: executeOperation_cases
         [of ex w "''load_sprite''" "load_sprite_params a" "str (projectPath a)"])
  case unresolved
  then show ?thesis
    by (auto simp add: contract_def handleLoadSprite_def response_forms
          split: option.splits promise.splits)
next
  case spawned
  then show ?thesis
    by (auto simp add: contract_def handleLoadSprite_def response_forms
          split: option.splits promise.splits)
qed

lemma handleExportMeshLibrary_contract: "contract w ex (handleExportMeshLibrary w ex a)"
proof (cases rule: executeOperation_cases
         [of ex w "''export_mesh_library''" "export_mesh_library_params a" "str (projectPath a)"])
  case unresolved
  then show ?thesis
    by (auto simp add: contract_def handleExportMeshLibrary_def response_forms
          split: option.splits promise.splits)
next
  case spawned
  then show ?thesis
    by (auto simp add: contract_def handleExportMeshLibrary_def response_forms
          split: option.splits promise.splits)
qed

lemma handleGetUid_contract: "contract w ex (handleGetUid w ex a)"
proof (cases rule: executeOperation_cases
         [of ex w "''get_uid''" "get_uid_params a" "str (projectPath a)"])
  case unresolved
  then show ?thesis
    by (auto simp add: contract_def handleGetUid_def response_forms
          split: option.splits promise.splits)
next
  case spawned
  then show ?thesis
    by (auto simp add: contract_def handleGetUid_def response_forms
          split: option.splits promise.splits)
qed

lemma handleUpdateProjectUids_contract: "contract w ex (handleUpdateProjectUids w ex a)"
proof (cases rule: executeOperation_cases
         [of ex w "''resave_resources''" "update_project_uids_params a" "str (projectPath a)"])
  case unresolved
  then show ?thesis
    by (auto simp add: contract_def handleUpdateProjectUids_def response_forms
          split: option.splits promise.splits)
next
  case spawned
  then show ?thesis
    by (auto simp add: contract_def handleUpdateProjectUids_def response_forms
          split: option.splits promise.splits)
qed

lemma discrete_handler_contract: "contract w ex (discrete_handler w ex t a)"
  by (cases t)
     (simp_all add: handleCreateScene_contract handleAddNode_contract
        handleSaveScene_contract handleLoadSprite_contract handleExportMeshLibrary_contract
        handleGetUid_contract handleUpdateProjectUids_contract)

lemma handleCreateScene_surfaces:
  assumes "\<not> truthy (godotPath ex)"
    and "\<exists>e \<in> set (fst (handleCreateScene w (ex\<lparr>godotPath := Some g\<rparr>) a)). is_Spawn e"
  shows "snd (handleCreateScene w ex a)
           = Resolved (createErrorResponse (failure_prefix Create_scene @ config_error)
               catch_suggestions)"
proof (cases rule: executeOperation_cases
         [of "ex\<lparr>godotPath := Some g\<rparr>" w "''create_scene''" "create_scene_params a" "str (projectPath a)"])
  case unresolved
  with assms(2) show ?thesis
    by (auto simp add: handleCreateScene_def split: option.splits promise.splits if_splits)
next
  case spawned
  with assms(2) show ?thesis
    by (auto simp add: handleCreateScene_def executeOperation_unresolved [OF assms(1)]
          message_config_error
          split: option.splits promise.splits if_splits)
qed

lemma handleAddNode_surfaces:
  assumes "\<not> truthy (godotPath ex)"
    and "\<exists>e \<in> set (fst (handleAddNode w (ex\<lparr>godotPath := Some g\<rparr>) a)). is_Spawn e"
  shows "snd (handleAddNode w ex a)
           = Resolved (createErrorResponse (failure_prefix Add_node @ config_error)
               catch_suggestions)"
proof (cases rule: executeOperation_cases
         [of "ex\<lparr>godotPath := Some g\<rparr>" w "''add_node''" "add_node_params a" "str (projectPath a)"])
  case unresolved
  with assms(2) show ?thesis
    by (auto simp add: handleAddNode_def split: option.splits promise.splits if_splits)
next
  case spawned
  with assms(2) show ?thesis
    by (auto simp add: handleAddNode_def executeOperation_unresolved [OF assms(1)]
          message_config_error
          split: option.splits promise.splits if_splits)
qed

lemma handleSaveScene_surfaces:
  assumes "\<not> truthy (godotPath ex)"
    and "\<exists>e \<in> set (fst (handleSaveScene w (ex\<lparr>godotPath := Some g\<rparr>) a)). is_Spawn e"
  shows "snd (handleSaveScene w ex a)
           = Resolved (createErrorResponse (failure_prefix Save_scene @ config_error)
               catch_suggestions)"
proof (cases rule: executeOperation_cases
         [of "ex\<lparr>godotPath := Some g\<rparr>" w "''save_scene''" "save_scene_params a" "str (projectPath a)"])
  case unresolved
  with assms(2) show ?thesis
    by (auto simp add: handleSaveScene_def split: option.splits promise.splits if_splits)
next
  case spawned
  with assms(2) show ?thesis
    by (auto simp add: handleSaveScene_def executeOperation_unresolved [OF assms(1)]
          message_config_error
          split: option.splits promise.splits if_splits)
qed

lemma handleLoadSprite_surfaces:
  assumes "\<not> truthy (godotPath ex)"
    and "\<exists>e \<in> set (fst (handleLoadSprite w (ex\<lparr>godotPath := Some g\<rparr>) a)). is_Spawn e"
  shows "snd (handleLoadSprite w ex a)
           = Resolved (createErrorResponse (failure_prefix Load_sprite @ config_error)
               catch_suggestions)"
proof (cases rule: executeOperation_cases
         [of "ex\<lparr>godotPath := Some g\<rparr>" w "''load_sprite''" "load_sprite_params a" "str (projectPath a)"])
  case unresolved
  with assms(2) show ?thesis
    by (auto simp add: handleLoadSprite_def split: option.splits promise.splits if_splits)
next
  case spawned
  with assms(2) show ?thesis
    by (auto simp add: handleLoadSprite_def executeOperation_unresolved [OF assms(1)]
          message_config_error
          split: option.splits promise.splits if_splits)
qed

lemma handleExportMeshLibrary_surfaces:
  assumes "\<not> truthy (godotPath ex)"
    and "\<exists>e \<in> set (fst (handleExportMeshLibrary w (ex\<lparr>godotPath := Some g\<rparr>) a)). is_Spawn e"
  shows "snd (handleExportMeshLibrary w ex a)
           = Resolved (createErrorResponse (failure_prefix Export_mesh_library @ config_error)
               catch_suggestions)"
proof (cases rule: executeOperation_cases
         [of "ex\<lparr>godotPath := Some g\<rparr>" w "''export_mesh_library''" "export_mesh_library_params a" "str (projectPath a)"])
  case unresolved
  with assms(2) show ?thesis
    by (auto simp add: handleExportMeshLibrary_def split: option.splits promise.splits if_splits)
next
  case spawned
  with assms(2) show ?thesis
    by (auto simp add: handleExportMeshLibrary_def executeOperation_unresolved [OF assms(1)]
          message_config_error
          split: option.splits promise.splits if_splits)
qed

lemma handleGetUid_surfaces:
  assumes "\<not> truthy (godotPath ex)"
    and "\<exists>e \<in> set (fst (handleGetUid w (ex\<lparr>godotPath := Some g\<rparr>) a)). is_Spawn e"
  shows "snd (handleGetUid w ex a)
           = Resolved (createErrorResponse (failure_prefix Get_uid @ config_error)
               catch_suggestions)"
proof (cases rule: executeOperation_cases
         [of "ex\<lparr>godotPath := Some g\<rparr>" w "''get_uid''" "get_uid_params a" "str (projectPath a)"])
  case unresolved
  with assms(2) show ?thesis
    by (auto simp add: handleGetUid_def split: option.splits promise.splits if_splits)
next
  case spawned
  with assms(2) show ?thesis
    by (auto simp add: handleGetUid_def executeOperation_unresolved [OF assms(1)]
          message_config_error
          split: option.splits promise.splits if_splits)
qed

lemma handleUpdateProjectUids_surfaces:
  assumes "\<not> truthy (godotPath ex)"
    and "\<exists>e \<in> set (fst (handleUpdateProjectUids w (ex\<lparr>godotPath := Some g\<rparr>) a)). is_Spawn e"
  shows "snd (handleUpdateProjectUids w ex a)
           = Resolved (createErrorResponse (failure_prefix Update_project_uids @ config_error)
               catch_suggestions)"
proof (cases rule: executeOperation_cases
         [of "ex\<lparr>godotPath := Some g\<rparr>" w "''resave_resources''" "update_project_uids_params a" "str (projectPath a)"])
  case unresolved
  with assms(2) show ?thesis
    by (auto simp add: handleUpdateProjectUids_def split: option.splits promise.splits if_splits)
next
  case spawned
  with assms(2) show ?thesis
    by (auto simp add: handleUpdateProjectUids_def executeOperation_unresolved [OF assms(1)]
          message_config_error
          split: option.splits promise.splits if_splits)
qed

lemma discrete_handler_surfaces:
  assumes "\<not> truthy (godotPath ex)"
    and "\<exists>e \<in> set (fst (discrete_handler w (ex\<lparr>godotPath := Some g\<rparr>) t a)). is_Spawn e"
  shows "snd (discrete_handler w ex t a)
           = Resolved (createErrorResponse (failure_prefix t @ config_error)
               catch_suggestions)"
  using assms
  by (cases t)
     (simp_all add: handleCreateScene_surfaces handleAddNode_surfaces
        handleSaveScene_surfaces handleLoadSprite_surfaces handleExportMeshLibrary_surfaces
        handleGetUid_surfaces handleUpdateProjectUids_surfaces)

lemma demo_checks:
  "validatePath ''game''" "validatePath ''main.tscn''"
  by (simp_all add: validatePath_def)

lemma demo_create_scene:
  "handleCreateScene (demo_world evs) (demo_executor (Some ''godot'')) create_scene_call
     = (case collect evs [] [] of
          Resolved r \<Rightarrow>
            ([Spawn ''godot'' (operation_args (demo_world evs) (demo_executor (Some ''godot''))
                ''create_scene'' (create_scene_params create_scene_call) ''game'')],
             if exitCode r \<noteq> 0 \<or> stderr r \<noteq> []
             then Resolved (createErrorResponse
                    (''Failed to create scene: '' @ stderr_or_unknown r)
                    [''Check if the root node type is valid'',
                     ''Ensure you have write permissions to the scene path'',
                     ''Verify the scene path is valid''])
             else Resolved (success (''Scene created successfully at: main.tscn''
                     @ [newline, newline] @ ''Output: '' @ stdout r)))
        | Rejected e \<Rightarrow>
            ([Spawn ''godot'' (operation_args (demo_world evs) (demo_executor (Some ''godot''))
                ''create_scene'' (create_scene_params create_scene_call) ''game'')],
             Resolved (createErrorResponse
               (''Failed to create scene: '' @ message_or_unknown (demo_world evs) e)
               catch_suggestions))
        | Pending \<Rightarrow>
            ([Spawn ''godot'' (operation_args (demo_world evs) (demo_executor (Some ''godot''))
                ''create_scene'' (create_scene_params create_scene_call) ''game'')],
             Pending))"
  by (simp add: handleCreateScene_def create_scene_call_def no_args_def truthy_def str_def
        validateProjectPath_def validateProjectDirectory_def demo_checks
        executeOperation_def Let_def demo_world_def demo_executor_def
      split: promise.splits)

text \<open>
  C2. For each of the seven handlers of a discrete operation: when the operation it ran
  has written to \<open>stderr\<close>, its response is flagged as an error, whatever the exit code;
  and a response that is not flagged comes from an operation that was run and ended
  with exit code 0 and an empty \<open>stderr\<close>.
\<close>

theorem stderr_is_failure:
  "(Spawn cmd argv \<in> set (fst (discrete_handler w ex t a))
      \<and> collect (child_events w cmd argv) [] [] = Resolved r \<and> stderr r \<noteq> []
    \<longrightarrow> (\<exists>m sols. snd (discrete_handler w ex t a) = Resolved (createErrorResponse m sols)
          \<and> isError (createErrorResponse m sols) = Some True))
   \<and> (snd (discrete_handler w ex t a) = Resolved resp \<and> isError resp \<noteq> Some True
    \<longrightarrow> (\<exists>txt cmd argv r. resp = success txt
           \<and> Spawn cmd argv \<in> set (fst (discrete_handler w ex t a))
           \<and> collect (child_events w cmd argv) [] [] = Resolved r
           \<and> exitCode r = 0 \<and> stderr r = []))"
proof -
  have c: "contract w ex (discrete_handler w ex t a)"
    by (rule discrete_handler_contract)
  have a: "\<exists>m sols. snd (discrete_handler w ex t a) = Resolved (createErrorResponse m sols)
          \<and> isError (createErrorResponse m sols) = Some True"
    if "Spawn cmd argv \<in> set (fst (discrete_handler w ex t a))"
      and "collect (child_events w cmd argv) [] [] = Resolved r" and "stderr r \<noteq> []"
  proof -
    from c that(1,2)
    have "if exitCode r \<noteq> 0 \<or> stderr r \<noteq> []
          then \<exists>m sols. snd (discrete_handler w ex t a) = Resolved (createErrorResponse m sols)
          else \<exists>txt. snd (discrete_handler w ex t a) = Resolved (success txt)"
      unfolding contract_def by blast
    with that(3) show ?thesis by (simp add: isError_createErrorResponse)
  qed
  have b: "\<exists>txt cmd argv r. resp = success txt
           \<and> Spawn cmd argv \<in> set (fst (discrete_handler w ex t a))
           \<and> collect (child_events w cmd argv) [] [] = Resolved r
           \<and> exitCode r = 0 \<and> stderr r = []"
    if r: "snd (discrete_handler w ex t a) = Resolved resp" and n: "isError resp \<noteq> Some True"
  proof -
    from c r have "(\<exists>m sols. resp = createErrorResponse m sols)
        \<or> (\<exists>txt cmd argv r. resp = success txt
              \<and> Spawn cmd argv \<in> set (fst (discrete_handler w ex t a))
              \<and> collect (child_events w cmd argv) [] [] = Resolved r
              \<and> exitCode r = 0 \<and> stderr r = [])"
      unfolding contract_def by blast
    with n show ?thesis by (auto simp: isError_createErrorResponse)
  qed
  from a b show ?thesis by blast
qed

theorem stderr_is_failure_witness:
  "(\<exists>m sols. snd (discrete_handler
               (demo_world [Spawned, Stderr_data ''WARNING: x'', Closed (Some 0)])
               (demo_executor (Some ''godot'')) Create_scene create_scene_call)
            = Resolved (createErrorResponse m sols)
          \<and> isError (createErrorResponse m sols) = Some True)
   \<and> (\<exists>cmd argv r.
         Spawn cmd argv \<in> set (fst (discrete_handler
              (demo_world [Spawned, Stdout_data ''done'', Closed (Some 0)])
              (demo_executor (Some ''godot'')) Create_scene create_scene_call))
         \<and> collect (child_events (demo_world [Spawned, Stdout_data ''done'', Closed (Some 0)])
               cmd argv) [] [] = Resolved r
         \<and> exitCode r = 0 \<and> stderr r = [])"
proof -
  let ?bad = "demo_world [Spawned, Stderr_data ''WARNING: x'', Closed (Some 0)]"
  let ?good = "demo_world [Spawned, Stdout_data ''done'', Closed (Some 0)]"
  let ?ex = "demo_executor (Some ''godot'')"
  let ?argv = "\<lambda>w. operation_args w ?ex ''create_scene''
                      (create_scene_params create_scene_call) ''game''"
  have bad: "Spawn ''godot'' (?argv ?bad)
        \<in> set (fst (discrete_handler ?bad ?ex Create_scene create_scene_call))
      \<and> collect (child_events ?bad ''godot'' (?argv ?bad)) [] []
          = Resolved \<lparr>stdout = [], stderr = ''WARNING: x'', exitCode = 0\<rparr>
      \<and> stderr \<lparr>stdout = [], stderr = ''WARNING: x'', exitCode = 0\<rparr> \<noteq> []"
    by (simp add: demo_create_scene code_or_zero_def demo_child_events)
  have good: "snd (discrete_handler ?good ?ex Create_scene create_scene_call)
        = Resolved (success (''Scene created successfully at: main.tscn''
                     @ [newline, newline] @ ''Output: done''))
      \<and> isError (success (''Scene created successfully at: main.tscn''
                     @ [newline, newline] @ ''Output: done'')) \<noteq> Some True"
    by (simp add: demo_create_scene code_or_zero_def isError_success)
  from stderr_is_failure [of "''godot''" "?argv ?bad" ?bad ?ex Create_scene create_scene_call
         "\<lparr>stdout = [], stderr = ''WARNING: x'', exitCode = 0\<rparr>"] bad
  have a: "\<exists>m sols. snd (discrete_handler ?bad ?ex Create_scene create_scene_call)
                   = Resolved (createErrorResponse m sols)
          \<and> isError (createErrorResponse m sols) = Some True"
    by blast
  from stderr_is_failure [of _ _ ?good ?ex Create_scene create_scene_call _
         "success (''Scene created successfully at: main.tscn''
                     @ [newline, newline] @ ''Output: done'')"] good
  have b: "\<exists>cmd argv r.
         Spawn cmd argv \<in> set (fst (discrete_handler ?good ?ex Create_scene create_scene_call))
         \<and> collect (child_events ?good cmd argv) [] [] = Resolved r
         \<and> exitCode r = 0 \<and> stderr r = []"
    by blast
  from a b show ?thesis by blast
qed

text \<open>
  C3. Without an executable path, \<open>executeOperation\<close> rejects at once with the
  configuration error and spawns nothing, for every operation, parameter bag and
  project path. No handler of a discrete operation spawns a child then, none answers
  with a response that is not flagged as an error, and a call that would have run its
  operation with a path is answered with the configuration error's message in an error
  response.
\<close>

theorem unresolved_executable_fails_fast:
  assumes "\<not> truthy (godotPath ex)"
  shows "executeOperation w ex operation params pp = ([], Rejected (Error config_error))
    \<and> (\<forall>e \<in> set (fst (discrete_handler w ex t a)). \<not> is_Spawn e)
    \<and> (\<forall>r. snd (discrete_handler w ex t a) = Resolved r
          \<longrightarrow> (\<exists>m sols. r = createErrorResponse m sols) \<and> isError r = Some True)
    \<and> ((\<exists>e \<in> set (fst (discrete_handler w (ex\<lparr>godotPath := Some g\<rparr>) t a)). is_Spawn e)
        \<longrightarrow> snd (discrete_handler w ex t a)
             = Resolved (createErrorResponse (failure_prefix t @ config_error)
                 catch_suggestions))"
proof -
  have c: "contract w ex (discrete_handler w ex t a)"
    by (rule discrete_handler_contract)
  have no_spawn: "\<forall>e \<in> set (fst (discrete_handler w ex t a)). \<not> is_Spawn e"
    using c assms unfolding contract_def by blast
  have flagged: "\<forall>r. snd (discrete_handler w ex t a) = Resolved r
          \<longrightarrow> (\<exists>m sols. r = createErrorResponse m sols) \<and> isError r = Some True"
  proof (intro allI impI)
    fix r
    assume r: "snd (discrete_handler w ex t a) = Resolved r"
    with c have "(\<exists>m sols. r = createErrorResponse m sols)
        \<or> (\<exists>cmd argv. Spawn cmd argv \<in> set (fst (discrete_handler w ex t a)))"
      unfolding contract_def by blast
    with no_spawn have "\<exists>m sols. r = createErrorResponse m sols" by force
    then show "(\<exists>m sols. r = createErrorResponse m sols) \<and> isError r = Some True"
      by (auto simp: isError_createErrorResponse)
  qed
  from executeOperation_unresolved [OF assms] no_spawn flagged
    discrete_handler_surfaces [OF assms]
  show ?thesis by blast
qed

theorem unresolved_executable_fails_fast_witness:
  "executeOperation (demo_world []) (demo_executor None) ''create_scene'' JNull ''game''
     = ([], Rejected (Error config_error))
   \<and> discrete_handler (demo_world []) (demo_executor None) Create_scene create_scene_call
     = ([], Resolved (createErrorResponse (''Failed to create scene: '' @ config_error)
              catch_suggestions))"
proof -
  have n: "\<not> truthy (godotPath (demo_executor None))"
    by (simp add: demo_executor_def truthy_def)
  have e: "(demo_executor None)\<lparr>godotPath := Some ''godot''\<rparr> = demo_executor (Some ''godot'')"
    by (simp add: demo_executor_def)
  have sp: "\<exists>e \<in> set (fst (discrete_handler (demo_world [])
              ((demo_executor None)\<lparr>godotPath := Some ''godot''\<rparr>)
              Create_scene create_scene_call)).
            is_Spawn e"
    by (simp add: e demo_create_scene)
  from unresolved_executable_fails_fast [OF n, of "demo_world []" "''create_scene''" JNull
         "''game''" Create_scene create_scene_call "''godot''"] sp
  have a: "executeOperation (demo_world []) (demo_executor None) ''create_scene'' JNull ''game''
             = ([], Rejected (Error config_error))"
    and c: "snd (discrete_handler (demo_world []) (demo_executor None) Create_scene
                create_scene_call)
             = Resolved (createErrorResponse (failure_prefix Create_scene @ config_error)
                 catch_suggestions)"
    by blast+
  have d: "fst (discrete_handler (demo_world []) (demo_executor None) Create_scene
                  create_scene_call) = []"
    by (simp add: handleCreateScene_def create_scene_call_def no_args_def truthy_def str_def
        validateProjectPath_def validateProjectDirectory_def demo_checks
        executeOperation_def Let_def demo_world_def demo_executor_def)
  from a c d show ?thesis
    by (simp add: prod_eq_iff)
qed

section \<open>Splitting a chunk into lines\<close>

lemma split_str_not_Nil: "split_str d sep \<noteq> []"
  by (induction d) (auto split: list.splits)

lemma length_split_str: "length (split_str d sep) = count_list d sep + 1"
  by (induction d) (auto simp: split_str_not_Nil split: list.splits)

lemma split_str_no_sep: "sep \<notin> set d \<Longrightarrow> split_str d sep = [d]"
  by (induction d) auto

lemma split_str_snoc_sep: "split_str (d @ [sep]) sep = split_str d sep @ [[]]"
  by (induction d) (auto simp: split_str_not_Nil split: list.splits)

lemma last_split_str_sep: "last (split_str (d @ [sep]) sep) = []"
  by (simp add: split_str_snoc_sep)

lemma join_split_str: "join_str (split_str d sep) sep = d"
proof (induction d)
  case Nil
  then show ?case by simp
next
  case (Cons c d)
  obtain f fs where fs: "split_str d sep = f # fs"
    using split_str_not_Nil [of d sep] by (cases "split_str d sep") auto
  with Cons show ?case by (cases fs) auto
qed

lemma split_str_fragments: "f \<in> set (split_str d sep) \<Longrightarrow> sep \<notin> set f"
  by (induction d arbitrary: f) (auto split: if_splits list.splits)

section \<open>The references stay in order\<close>

lemma wf_initial: "wf initial_state"
  by (simp add: wf_def initial_state_def)

lemma wf_stateless: "wf s \<Longrightarrow> wf (snd (stateless r s))"
  by (auto simp: wf_def stateless_def split: option.splits)

lemma children_stateless: "children (snd (stateless r s)) = children s"
  by (simp add: stateless_def)

lemma wf_handleRunProject: "wf s \<Longrightarrow> wf (snd (handleRunProject w a s))"
  by (auto simp: wf_def handleRunProject_def Let_def nth_append less_Suc_eq
        split: option.splits)

lemma wf_handleStopProject: "wf s \<Longrightarrow> wf (snd (handleStopProject w s))"
  by (auto simp: wf_def handleStopProject_def split: option.splits)

lemma wf_tool_switch: "wf s \<Longrightarrow> wf (snd (tool_switch w ex name a s))"
  by (simp add: tool_switch_def wf_stateless wf_handleRunProject wf_handleStopProject)

lemma wf_clear_if_active: "wf s \<Longrightarrow> wf (clear_if_active p s)"
  by (auto simp: wf_def clear_if_active_def split: option.splits)

lemma children_clear_if_active: "children (clear_if_active p s) = children s"
  by (simp add: clear_if_active_def split: option.splits)

lemma wf_on_spawn: "wf s \<Longrightarrow> wf (on_spawn p s)"
  by (auto simp: wf_def on_spawn_def Let_def nth_list_update split: option.splits)

lemma wf_on_error: "wf s \<Longrightarrow> wf (on_error p m s)"
  by (auto simp: wf_def on_error_def Let_def nth_list_update clear_if_active_def
        split: option.splits)

lemma wf_on_exit: "wf s \<Longrightarrow> wf (on_exit p code s)"
  by (simp add: on_exit_def wf_clear_if_active)

lemma wf_on_stdout: "wf s \<Longrightarrow> wf (on_stdout p d s)"
  by (auto simp: wf_def on_stdout_def Let_def split: option.splits)

lemma wf_on_stderr: "wf s \<Longrightarrow> wf (on_stderr p d s)"
  by (auto simp: wf_def on_stderr_def Let_def split: option.splits)

lemma wf_step: "wf s \<Longrightarrow> wf (step w ex s ev)"
  by (cases ev)
     (simp_all add: wf_tool_switch wf_on_spawn wf_on_error wf_on_exit wf_on_stdout
        wf_on_stderr)

lemma wf_run: "wf s \<Longrightarrow> wf (run w ex s evs)"
  unfolding run_def by (induction evs arbitrary: s) (simp_all add: wf_step)

lemma run_Nil: "run w ex s [] = s"
  by (simp add: run_def)

lemma run_Cons: "run w ex s (ev # evs) = run w ex (step w ex s ev) evs"
  by (simp add: run_def)


section \<open>What the arrays hold\<close>

lemma arrays_stateless: "arrays (snd (stateless r s)) = arrays s"
  by (simp add: stateless_def)

lemma length_children_handleRunProject:
  "length (children s) \<le> length (children (snd (handleRunProject w a s)))"
  by (simp add: handleRunProject_def Let_def split: option.splits)

lemma arrays_handleRunProject:
  "p < length (children s) \<Longrightarrow>
   arrays (snd (handleRunProject w a s)) (Out_ref p) = arrays s (Out_ref p)
   \<and> arrays (snd (handleRunProject w a s)) (Err_ref p) = arrays s (Err_ref p)"
  by (simp add: handleRunProject_def Let_def split: option.splits)

lemma children_handleStopProject: "children (snd (handleStopProject w s)) = children s"
  by (simp add: handleStopProject_def split: option.splits)

lemma arrays_handleStopProject: "arrays (snd (handleStopProject w s)) = arrays s"
  by (simp add: handleStopProject_def split: option.splits)

lemma length_children_tool_switch:
  "length (children s) \<le> length (children (snd (tool_switch w ex name a s)))"
  by (simp add: tool_switch_def children_stateless length_children_handleRunProject
        children_handleStopProject)

lemma arrays_tool_switch:
  "p < length (children s) \<Longrightarrow>
   arrays (snd (tool_switch w ex name a s)) (Out_ref p) = arrays s (Out_ref p)
   \<and> arrays (snd (tool_switch w ex name a s)) (Err_ref p) = arrays s (Err_ref p)"
  by (simp add: tool_switch_def arrays_stateless arrays_handleRunProject
        arrays_handleStopProject)

lemma length_children_step:
  "length (children s) \<le> length (children (step w ex s ev))"
  by (cases ev)
     (simp_all add: length_children_tool_switch on_spawn_def on_error_def on_exit_def
        on_stdout_def on_stderr_def Let_def children_clear_if_active)

lemma arrays_step:
  assumes "wf s" and "p < length (children s)"
  shows "arrays (step w ex s ev) (Out_ref p) = arrays s (Out_ref p) @ output_fragments p ev
       \<and> arrays (step w ex s ev) (Err_ref p) = arrays s (Err_ref p) @ errors_fragments p ev"
proof (cases ev)
  case (Call name a)
  with assms show ?thesis by (simp add: arrays_tool_switch)
next
  case (Spawn_event q)
  then show ?thesis by (simp add: on_spawn_def Let_def)
next
  case (Error_event q m)
  then show ?thesis by (simp add: on_error_def Let_def clear_if_active_def split: option.splits)
next
  case (Stdout_event q d)
  with assms show ?thesis by (auto simp: on_stdout_def Let_def wf_def)
next
  case (Stderr_event q d)
  with assms show ?thesis by (auto simp: on_stderr_def Let_def wf_def)
next
  case (Exit_event q code)
  then show ?thesis by (simp add: on_exit_def clear_if_active_def split: option.splits)
qed

lemma arrays_run:
  assumes "wf s" and "p < length (children s)"
  shows "arrays (run w ex s evs) (Out_ref p) = arrays s (Out_ref p) @ captured_output p evs
       \<and> arrays (run w ex s evs) (Err_ref p) = arrays s (Err_ref p) @ captured_errors p evs"
  using assms
proof (induction evs arbitrary: s)
  case Nil
  then show ?case by (simp add: run_Nil captured_output_def captured_errors_def)
next
  case (Cons ev evs)
  have "wf (step w ex s ev)" using Cons.prems(1) by (rule wf_step)
  moreover have "p < length (children (step w ex s ev))"
    using Cons.prems(2) length_children_step [of s w ex ev] by simp
  ultimately have
    "arrays (run w ex (step w ex s ev) evs) (Out_ref p)
       = arrays (step w ex s ev) (Out_ref p) @ captured_output p evs
     \<and> arrays (run w ex (step w ex s ev) evs) (Err_ref p)
       = arrays (step w ex s ev) (Err_ref p) @ captured_errors p evs"
    by (rule Cons.IH)
  with arrays_step [OF Cons.prems, of w ex ev] show ?case
    by (simp add: run_Cons captured_output_def captured_errors_def)
qed

section \<open>The captured lines\<close>

text \<open>Every state that the server reaches from its initial state has its references in order.\<close>

lemma wf_reachable: "wf (run w ex initial_state evs)"
  by (rule wf_run) (rule wf_initial)

lemma handleGetDebugOutput_active:
  "activeProcess s = Some gp \<Longrightarrow>
   handleGetDebugOutput w s
     = Resolved (success (JSON_stringify w 2
         (JObj [(''output'', JArr (map JStr (arrays s (output_array gp)))),
                (''errors'', JArr (map JStr (arrays s (errors_array gp))))])))"
  by (simp add: handleGetDebugOutput_def)

lemma activeProcess_on_stdout: "activeProcess (on_stdout p d s) = activeProcess s"
  by (simp add: on_stdout_def Let_def)

lemma activeProcess_on_stderr: "activeProcess (on_stderr p d s) = activeProcess s"
  by (simp add: on_stderr_def Let_def)

text \<open>
  C10. Each chunk of data from the active child is split at the newlines and all its
  fragments are appended to the array of its stream: one more fragment than the chunk
  has newlines, none of them with a newline, together the chunk again when joined by
  newlines; an empty last fragment for a chunk that ends in a newline, and two entries
  for a line that arrives in two chunks. The text that \<open>handleGetDebugOutput\<close> returns is
  made from the object whose \<open>output\<close> and \<open>errors\<close> are exactly these arrays.
\<close>

theorem chunks_are_split_into_lines:
  assumes "wf s" and "activeProcess s = Some gp" and "process gp = p"
  shows "arrays (on_stdout p d s) (output_array gp)
           = arrays s (output_array gp) @ split_str d newline
    \<and> arrays (on_stderr p d s) (errors_array gp)
           = arrays s (errors_array gp) @ split_str d newline
    \<and> length (split_str d newline) = count_list d newline + 1
    \<and> join_str (split_str d newline) newline = d
    \<and> (\<forall>f \<in> set (split_str d newline). newline \<notin> set f)
    \<and> last (split_str (d @ [newline]) newline) = []
    \<and> (newline \<notin> set d1 \<and> newline \<notin> set d2 \<longrightarrow>
         handleGetDebugOutput w (run w ex s [Stdout_event p d1, Stdout_event p d2])
           = Resolved (success (JSON_stringify w 2
               (JObj [(''output'',
                         JArr (map JStr (arrays s (output_array gp)) @ [JStr d1, JStr d2])),
                      (''errors'', JArr (map JStr (arrays s (errors_array gp))))]))))
    \<and> handleGetDebugOutput w (run w ex s [Stdout_event p d, Stderr_event p d'])
           = Resolved (success (JSON_stringify w 2
               (JObj [(''output'',
                         JArr (map JStr (arrays s (output_array gp) @ split_str d newline))),
                      (''errors'',
                         JArr (map JStr
                           (arrays s (errors_array gp) @ split_str d' newline)))])))"
proof -
  from assms have p: "p < length (children s)"
    and o: "output_array gp = Out_ref p" and e: "errors_array gp = Err_ref p"
    by (auto simp: wf_def)
  have 1: "arrays (on_stdout p d s) (output_array gp)
             = arrays s (output_array gp) @ split_str d newline"
    using arrays_step [OF assms(1) p, of w ex "Stdout_event p d"] o by simp
  have 2: "arrays (on_stderr p d s) (errors_array gp)
             = arrays s (errors_array gp) @ split_str d newline"
    using arrays_step [OF assms(1) p, of w ex "Stderr_event p d"] e by simp
  have act: "activeProcess (run w ex s [Stdout_event p x, ev]) = Some gp"
    if "ev = Stdout_event p y \<or> ev = Stderr_event p y" for x y ev
    using that assms(2)
    by (auto simp: run_Cons run_Nil activeProcess_on_stdout activeProcess_on_stderr)
  have 5: "handleGetDebugOutput w (run w ex s [Stdout_event p d1, Stdout_event p d2])
           = Resolved (success (JSON_stringify w 2
               (JObj [(''output'',
                         JArr (map JStr (arrays s (output_array gp)) @ [JStr d1, JStr d2])),
                      (''errors'', JArr (map JStr (arrays s (errors_array gp))))])))"
    if "newline \<notin> set d1" and "newline \<notin> set d2"
    using arrays_run [OF assms(1) p, of w ex "[Stdout_event p d1, Stdout_event p d2]"]
      that o e
    by (simp add: handleGetDebugOutput_active [OF act [of _ d2]] captured_output_def
          captured_errors_def split_str_no_sep)
  have 6: "handleGetDebugOutput w (run w ex s [Stdout_event p d, Stderr_event p d'])
           = Resolved (success (JSON_stringify w 2
               (JObj [(''output'',
                         JArr (map JStr (arrays s (output_array gp) @ split_str d newline))),
                      (''errors'',
                         JArr (map JStr
                           (arrays s (errors_array gp) @ split_str d' newline)))])))"
    using arrays_run [OF assms(1) p, of w ex "[Stdout_event p d, Stderr_event p d']"] o e
    by (simp add: handleGetDebugOutput_active [OF act [of _ d']] captured_output_def
          captured_errors_def)
  have 7: "\<forall>f \<in> set (split_str d newline). newline \<notin> set f"
    using split_str_fragments by blast
  from 1 2 5 6 7 show ?thesis
    by (simp add: length_split_str last_split_str_sep join_split_str)
qed

lemma wf_running_state: "wf running_state"
  by (simp add: wf_def running_state_def)

lemma JSON_stringify_text_world: "JSON_stringify text_world n j = render j"
  by (simp add: text_world_def)

theorem chunks_are_split_into_lines_witness:
  "arrays (on_stdout 0 (''a'' @ [newline] @ ''b'' @ [newline]) running_state) (Out_ref 0)
     = [''ready'', ''a'', ''b'', []]
   \<and> handleGetDebugOutput text_world
        (run text_world (demo_executor None) running_state
           [Stdout_event 0 ''Hello, '', Stdout_event 0 ''world''])
     = Resolved (success
         (''{'' @ [CHR 0x22] @ ''output'' @ [CHR 0x22] @ '':[''
            @ [CHR 0x22] @ ''ready'' @ [CHR 0x22] @ '',''
            @ [CHR 0x22] @ ''Hello, '' @ [CHR 0x22] @ '',''
            @ [CHR 0x22] @ ''world'' @ [CHR 0x22] @ ''],''
            @ [CHR 0x22] @ ''errors'' @ [CHR 0x22] @ '':[]}''))"
proof -
  let ?gp = "\<lparr>process = 0, output_array = Out_ref 0, errors_array = Err_ref 0\<rparr>"
  have a: "activeProcess running_state = Some ?gp"
    by (simp add: running_state_def)
  have n: "newline \<notin> set ''Hello, '' \<and> newline \<notin> set ''world''"
    by (simp add: newline_def)
  have o: "arrays running_state (Out_ref 0) = [''ready'']"
    and e: "arrays running_state (Err_ref 0) = []"
    by (simp_all add: running_state_def)
  from chunks_are_split_into_lines [OF wf_running_state a, of 0
         "''a'' @ [newline] @ ''b'' @ [newline]" "''Hello, ''" "''world''"
         text_world "demo_executor None"] n
  show ?thesis
    by (simp add: o e newline_def dquote_def JSON_stringify_text_world)
qed

section \<open>Stopping the active process\<close>

lemma handleRunProject_Later:
  assumes "handleRunProject w a s = (Later p, s1)"
  shows "p = length (children s) \<and> length (children s1) = Suc p
    \<and> arrays s1 (Out_ref p) = [] \<and> arrays s1 (Err_ref p) = []
    \<and> spawn_listener (children s1 ! p) \<and> settled (children s1 ! p) = Pending
    \<and> activeProcess s1 = activeProcess s"
  using assms
  by (auto simp: handleRunProject_def Let_def split: if_splits option.splits)

text \<open>
  C6. When the active process is the child \<open>p\<close> of an earlier \<open>handleRunProject\<close> call,
  \<open>handleStopProject\<close> kills it and returns the text of the object whose \<open>finalOutput\<close>
  and \<open>finalErrors\<close> are exactly the fragments of the data events of \<open>p\<close> that have
  arrived since that call, in order; afterwards the slot is empty and
  \<open>handleGetDebugOutput\<close> reports no active process.
\<close>

theorem stop_returns_captured_lines:
  assumes "wf s0" and "handleRunProject w a s0 = (Later p, s1)" and "s = run w ex s1 evs"
    and "activeProcess s = Some gp" and "process gp = p"
  shows "handleStopProject w s
           = (Resolved (success (JSON_stringify w 2
                (JObj [(''message'', JStr ''Godot project stopped''),
                       (''finalOutput'', JArr (map JStr (captured_output p evs))),
                       (''finalErrors'', JArr (map JStr (captured_errors p evs)))]))),
              s\<lparr>activeProcess := None, log := log s @ [Kill p]\<rparr>)
    \<and> arrays s (output_array gp) = captured_output p evs
    \<and> arrays s (errors_array gp) = captured_errors p evs
    \<and> activeProcess (snd (handleStopProject w s)) = None
    \<and> handleGetDebugOutput w (snd (handleStopProject w s)) = Resolved no_active_process"
proof -
  from wf_handleRunProject [OF assms(1), of w a] assms(2) have w1: "wf s1" by simp
  from handleRunProject_Later [OF assms(2)]
  have p: "p < length (children s1)"
    and e: "arrays s1 (Out_ref p) = []" "arrays s1 (Err_ref p) = []"
    by auto
  from wf_run [OF w1, of w ex evs] assms(3,4,5)
  have o: "output_array gp = Out_ref p" "errors_array gp = Err_ref p"
    by (auto simp: wf_def)
  from arrays_run [OF w1 p, of w ex evs] e o assms(3)
  have 2: "arrays s (output_array gp) = captured_output p evs
          \<and> arrays s (errors_array gp) = captured_errors p evs"
    by simp
  have 1: "handleStopProject w s
           = (Resolved (success (JSON_stringify w 2
                (JObj [(''message'', JStr ''Godot project stopped''),
                       (''finalOutput'', JArr (map JStr (captured_output p evs))),
                       (''finalErrors'', JArr (map JStr (captured_errors p evs)))]))),
              s\<lparr>activeProcess := None, log := log s @ [Kill p]\<rparr>)"
    using assms(4,5) 2 by (simp add: handleStopProject_def)
  from 1 2 show ?thesis by (simp add: handleGetDebugOutput_def)
qed

theorem stop_returns_captured_lines_witness:
  "handleStopProject text_world
     (run text_world (demo_executor None)
        (snd (handleRunProject text_world (run_project_call None) initial_state))
        [Spawn_event 0, Stdout_event 0 (''one'' @ [newline] @ ''two''), Stderr_event 0 ''fail''])
   = (Resolved (success
        (''{'' @ [CHR 0x22] @ ''message'' @ [CHR 0x22] @ '':''
           @ [CHR 0x22] @ ''Godot project stopped'' @ [CHR 0x22] @ '',''
           @ [CHR 0x22] @ ''finalOutput'' @ [CHR 0x22] @ '':[''
           @ [CHR 0x22] @ ''one'' @ [CHR 0x22] @ '','' @ [CHR 0x22] @ ''two'' @ [CHR 0x22]
           @ ''],'' @ [CHR 0x22] @ ''finalErrors'' @ [CHR 0x22] @ '':[''
           @ [CHR 0x22] @ ''fail'' @ [CHR 0x22] @ '']}'')),
      \<lparr>activeProcess = None,
       arrays = (\<lambda>r. if r = Out_ref 0 then [''one'', ''two'']
                      else if r = Err_ref 0 then [''fail''] else []),
       children = [\<lparr>c_output = Out_ref 0, c_errors = Err_ref 0, spawn_listener = False,
                    error_listener = True, settled = Resolved project_started\<rparr>],
       log = [Spawn ''godot'' [''-d'', ''--path'', ''game''], Kill 0]\<rparr>)
   \<and> captured_output 0
        [Spawn_event 0, Stdout_event 0 (''one'' @ [newline] @ ''two''), Stderr_event 0 ''fail'']
     = [''one'', ''two'']
   \<and> captured_errors 0
        [Spawn_event 0, Stdout_event 0 (''one'' @ [newline] @ ''two''), Stderr_event 0 ''fail'']
     = [''fail'']"
proof -
  let ?w = "text_world"
  let ?s1 = "snd (handleRunProject ?w (run_project_call None) initial_state)"
  let ?evs = "[Spawn_event 0, Stdout_event 0 (''one'' @ [newline] @ ''two''),
               Stderr_event 0 ''fail'']"
  let ?gp = "\<lparr>process = 0, output_array = Out_ref 0, errors_array = Err_ref 0\<rparr>"
  have r: "handleRunProject ?w (run_project_call None) initial_state
      = (Later 0,
         \<lparr>activeProcess = None, arrays = (\<lambda>r. []),
          children = [\<lparr>c_output = Out_ref 0, c_errors = Err_ref 0, spawn_listener = True,
                       error_listener = True, settled = Pending\<rparr>],
          log = [Spawn ''godot'' [''-d'', ''--path'', ''game'']]\<rparr>)"
    by (simp add: handleRunProject_def run_project_call_def no_args_def truthy_def str_def
          validateProjectPath_def validateProjectDirectory_def demo_checks demo_world_def
          text_world_def initial_state_def run_project_args_def fun_eq_iff)
  have s: "run ?w (demo_executor None) ?s1 ?evs
      = \<lparr>activeProcess = Some ?gp,
         arrays = (\<lambda>r. if r = Out_ref 0 then [''one'', ''two'']
                        else if r = Err_ref 0 then [''fail''] else []),
         children = [\<lparr>c_output = Out_ref 0, c_errors = Err_ref 0, spawn_listener = False,
                      error_listener = True, settled = Resolved project_started\<rparr>],
         log = [Spawn ''godot'' [''-d'', ''--path'', ''game'']]\<rparr>"
    by (simp add: r run_def on_spawn_def on_stdout_def on_stderr_def resolve_def
          project_started_def newline_def Let_def fun_eq_iff)
  have r': "handleRunProject ?w (run_project_call None) initial_state = (Later 0, ?s1)"
    by (simp add: r)
  have a: "activeProcess (run ?w (demo_executor None) ?s1 ?evs) = Some ?gp"
    unfolding s by simp
  have g: "process ?gp = 0" by simp
  have co: "captured_output 0 ?evs = [''one'', ''two'']"
    and ce: "captured_errors 0 ?evs = [''fail'']"
    by (simp_all add: captured_output_def captured_errors_def newline_def)
  from stop_returns_captured_lines [OF wf_initial r' refl a g]
  have "handleStopProject ?w (run ?w (demo_executor None) ?s1 ?evs)
      = (Resolved (success (JSON_stringify ?w 2
           (JObj [(''message'', JStr ''Godot project stopped''),
                  (''finalOutput'', JArr (map JStr (captured_output 0 ?evs))),
                  (''finalErrors'', JArr (map JStr (captured_errors 0 ?evs)))]))),
         (run ?w (demo_executor None) ?s1 ?evs)
           \<lparr>activeProcess := None,
             log := log (run ?w (demo_executor None) ?s1 ?evs) @ [Kill 0]\<rparr>)"
    by blast
  then show ?thesis
    unfolding s co ce by (simp add: JSON_stringify_text_world dquote_def co ce)
qed

section \<open>Starting a run while a process is active\<close>

lemma log_step_start: "start_event p ev \<Longrightarrow> log (step w ex s ev) = log s"
  by (cases ev)
     (simp_all add: on_spawn_def on_error_def on_exit_def on_stdout_def on_stderr_def
        Let_def clear_if_active_def split: option.splits)

lemma log_run_start: "\<forall>ev \<in> set evs. start_event p ev \<Longrightarrow> log (run w ex s evs) = log s"
  by (induction evs arbitrary: s) (simp_all add: run_Nil run_Cons log_step_start [of p])

lemma started_step:
  assumes "wf s" and "started p s" and "start_event p ev"
  shows "started p (step w ex s ev)"
proof (cases ev)
  case (Call name a)
  with assms(3) show ?thesis by simp
next
  case (Spawn_event q)
  with assms show ?thesis
    by (auto simp: started_def on_spawn_def Let_def wf_def resolve_def)
next
  case (Error_event q m)
  with assms show ?thesis
    by (auto simp: started_def on_error_def Let_def clear_if_active_def)
next
  case (Stdout_event q d)
  with assms show ?thesis by (simp add: started_def on_stdout_def Let_def)
next
  case (Stderr_event q d)
  with assms show ?thesis by (simp add: started_def on_stderr_def Let_def)
next
  case (Exit_event q code)
  with assms show ?thesis by (auto simp: started_def on_exit_def clear_if_active_def)
qed

lemma started_run:
  assumes "wf s" and "started p s" and "\<forall>ev \<in> set evs. start_event p ev"
  shows "started p (run w ex s evs)"
  using assms
proof (induction evs arbitrary: s)
  case Nil
  then show ?case by (simp add: run_Nil)
next
  case (Cons ev evs)
  then show ?case by (simp add: run_Cons wf_step started_step)
qed

lemma starting_step:
  assumes "wf s" and "starting p old s" and "start_event p ev"
  shows "if ev = Spawn_event p then started p (step w ex s ev)
         else starting p old (step w ex s ev)"
proof (cases ev)
  case (Call name a)
  with assms(3) show ?thesis by simp
next
  case (Spawn_event q)
  with assms show ?thesis
    by (auto simp: started_def starting_def on_spawn_def Let_def wf_def resolve_def
          project_started_def)
next
  case (Error_event q m)
  with assms show ?thesis
    by (auto simp: starting_def on_error_def Let_def clear_if_active_def
          split: option.splits)
next
  case (Stdout_event q d)
  with assms show ?thesis by (simp add: starting_def on_stdout_def Let_def)
next
  case (Stderr_event q d)
  with assms show ?thesis by (simp add: starting_def on_stderr_def Let_def)
next
  case (Exit_event q code)
  with assms show ?thesis
    by (auto simp: starting_def on_exit_def clear_if_active_def split: option.splits)
qed

lemma starting_run:
  assumes "wf s" and "starting p old s" and "\<forall>ev \<in> set evs. start_event p ev"
  shows "if Spawn_event p \<in> set evs then started p (run w ex s evs)
         else starting p old (run w ex s evs)"
  using assms
proof (induction evs arbitrary: s)
  case Nil
  then show ?case by (simp add: run_Nil)
next
  case (Cons ev evs)
  from Cons.prems have w: "wf (step w ex s ev)" and ev: "start_event p ev"
    and rest: "\<forall>e \<in> set evs. start_event p e"
    by (simp_all add: wf_step)
  show ?case
  proof (cases "ev = Spawn_event p")
    case True
    with starting_step [OF Cons.prems(1,2) ev, of w ex]
    have "started p (step w ex s ev)" by simp
    from started_run [OF w this rest] True show ?thesis by (simp add: run_Cons)
  next
    case False
    with starting_step [OF Cons.prems(1,2) ev, of w ex]
    have "starting p old (step w ex s ev)" by simp
    from Cons.IH [OF w this rest] False show ?thesis by (simp add: run_Cons)
  qed
qed

text \<open>
  C5. A \<open>handleRunProject\<close> call that passes its checks while a process \<open>old\<close> is active
  kills \<open>old\<close> first and spawns the new child after that. While the new child starts, the
  slot holds \<open>old\<close>, nothing, or the new child; once the \<open>spawn\<close> event of the new child
  has arrived, the slot holds the new child and no other, whenever the \<open>exit\<close> event of
  \<open>old\<close> arrives, and the call's promise has resolved.
\<close>

theorem run_replaces_active_process:
  assumes "wf s" and "activeProcess s = Some old"
    and "truthy (projectPath a)"
    and "first_failure [validateProjectPath (str (projectPath a)),
                        validateProjectDirectory w (str (projectPath a))] = None"
    and "truthy (getGodotPath w)"
    and "\<forall>ev \<in> set evs. start_event (length (children s)) ev"
    and "Spawn_event (length (children s)) \<in> set evs"
  shows "fst (handleRunProject w a s) = Later (length (children s))
    \<and> length (children s) \<noteq> process old
    \<and> log (snd (handleRunProject w a s))
        = log s @ [Kill (process old), Spawn (str (getGodotPath w)) (run_project_args a)]
    \<and> activeProcess (run w ex (snd (handleRunProject w a s)) evs)
        = Some \<lparr>process = length (children s), output_array = Out_ref (length (children s)),
                 errors_array = Err_ref (length (children s))\<rparr>
    \<and> log (run w ex (snd (handleRunProject w a s)) evs) = log (snd (handleRunProject w a s))
    \<and> handler_promise (run w ex (snd (handleRunProject w a s)) evs)
          (fst (handleRunProject w a s)) = Resolved project_started
    \<and> (\<forall>k \<le> length evs.
          activeProcess (run w ex (snd (handleRunProject w a s)) (take k evs))
            \<in> {None, Some old,
                Some \<lparr>process = length (children s),
                      output_array = Out_ref (length (children s)),
                      errors_array = Err_ref (length (children s))\<rparr>})"
proof -
  let ?p = "length (children s)"
  let ?s1 = "snd (handleRunProject w a s)"
  have r: "handleRunProject w a s
      = (Later ?p,
         s\<lparr>log := log s @ [Kill (process old)],
           children := children s @
             [\<lparr>c_output = Out_ref ?p, c_errors = Err_ref ?p, spawn_listener = True,
               error_listener = True, settled = Pending\<rparr>],
           arrays := (arrays s)(Out_ref ?p := [], Err_ref ?p := []),
           log := log s @ [Kill (process old)]
                    @ [Spawn (str (getGodotPath w)) (run_project_args a)]\<rparr>)"
    using assms(2-5) by (simp add: handleRunProject_def Let_def)
  have w1: "wf ?s1" using assms(1) by (rule wf_handleRunProject)
  have st: "starting ?p (Some old) ?s1"
    by (simp add: r starting_def assms(2))
  from assms(1,2) have neq: "?p \<noteq> process old"
    by (auto simp: wf_def)
  from starting_run [OF w1 st assms(6), of w ex] assms(7)
  have fin: "started ?p (run w ex ?s1 evs)" by simp
  have every: "activeProcess (run w ex ?s1 (take k evs))
            \<in> {None, Some old,
                Some \<lparr>process = ?p, output_array = Out_ref ?p, errors_array = Err_ref ?p\<rparr>}"
    for k
  proof -
    from assms(6) have "\<forall>ev \<in> set (take k evs). start_event ?p ev"
      by (meson in_set_takeD)
    from starting_run [OF w1 st this, of w ex] show ?thesis
      by (auto simp: started_def starting_def split: if_splits)
  qed
  from fin every neq show ?thesis
    by (simp add: r started_def handler_promise_def log_run_start [OF assms(6)])
qed

theorem run_replaces_active_process_witness:
  "fst (handleRunProject (demo_world []) (run_project_call None) running_state) = Later 1
   \<and> log (snd (handleRunProject (demo_world []) (run_project_call None) running_state))
       = [Spawn ''godot'' [''-d'', ''--path'', ''game''], Kill 0,
          Spawn ''godot'' [''-d'', ''--path'', ''game'']]
   \<and> activeProcess
         (run (demo_world []) (demo_executor None)
            (snd (handleRunProject (demo_world []) (run_project_call None) running_state))
            [Exit_event 0 None, Spawn_event 1, Stdout_event 1 ''hi''])
       = Some \<lparr>process = 1, output_array = Out_ref 1, errors_array = Err_ref 1\<rparr>"
proof -
  let ?w = "demo_world []"
  let ?old = "\<lparr>process = 0, output_array = Out_ref 0, errors_array = Err_ref 0\<rparr>"
  have a: "activeProcess running_state = Some ?old"
    by (simp add: running_state_def)
  have n: "length (children running_state) = 1"
    by (simp add: running_state_def)
  have t: "truthy (projectPath (run_project_call None))"
    by (simp add: run_project_call_def no_args_def truthy_def)
  have f: "first_failure
             [validateProjectPath (str (projectPath (run_project_call None))),
              validateProjectDirectory ?w (str (projectPath (run_project_call None)))] = None"
    by (simp add: run_project_call_def no_args_def str_def validateProjectPath_def
          validateProjectDirectory_def demo_checks demo_world_def)
  have g: "truthy (getGodotPath ?w)"
    by (simp add: demo_world_def truthy_def)
  have e: "\<forall>ev \<in> set [Exit_event 0 None, Spawn_event 1, Stdout_event 1 ''hi''].
             start_event (length (children running_state)) ev"
    by (simp add: n)
  have s: "Spawn_event (length (children running_state))
             \<in> set [Exit_event 0 None, Spawn_event 1, Stdout_event 1 ''hi'']"
    by (simp add: n)
  have l: "log running_state = [Spawn ''godot'' [''-d'', ''--path'', ''game'']]"
    by (simp add: running_state_def)
  have ra: "run_project_args (run_project_call None) = [''-d'', ''--path'', ''game'']"
    by (simp add: run_project_args_def run_project_call_def no_args_def str_def truthy_def)
  have gp: "str (getGodotPath ?w) = ''godot''"
    by (simp add: demo_world_def str_def)
  from run_replaces_active_process [OF wf_running_state a t f g e s, of "demo_executor None"]
  show ?thesis by (simp add: n l ra gp)
qed

section \<open>The scene argument of the supervised run\<close>

text \<open>
  C8. Every path argument is checked by the validator before it is used, and a failed
  check is answered with a validation error. This does not hold for the scene argument
  of the supervised run: a scene that the validator rejects is left out of the argument
  vector, the project is started without it, and the call is answered with the success
  response. \<open>handleSaveScene\<close> answers its optional path argument \<open>newPath\<close>, when the
  validator rejects it, with an error response (\<open>unsafe_newPath_is_reported\<close> below).
\<close>

theorem unsafe_scene_is_dropped:
  "validatePath ''../secret.tscn'' = False
   \<and> handleRunProject (demo_world []) (run_project_call (Some ''../secret.tscn''))
        initial_state
     = (Later 0,
        \<lparr>activeProcess = None, arrays = (\<lambda>r. []),
         children = [\<lparr>c_output = Out_ref 0, c_errors = Err_ref 0, spawn_listener = True,
                      error_listener = True, settled = Pending\<rparr>],
         log = [Spawn ''godot'' [''-d'', ''--path'', ''game'']]\<rparr>)
   \<and> tool_call_result (demo_world [])
        (run (demo_world []) (demo_executor None) initial_state
           [Call ''run_project'' (run_project_call (Some ''../secret.tscn'')), Spawn_event 0])
        (fst (tool_switch (demo_world []) (demo_executor None) ''run_project''
                (run_project_call (Some ''../secret.tscn'')) initial_state))
     = Resolved project_started
   \<and> isError project_started = None"
proof -
  have v: "validatePath ''../secret.tscn'' = False"
    by (simp add: validatePath_def)
  have r: "handleRunProject (demo_world []) (run_project_call (Some ''../secret.tscn''))
        initial_state
     = (Later 0,
        \<lparr>activeProcess = None, arrays = (\<lambda>r. []),
         children = [\<lparr>c_output = Out_ref 0, c_errors = Err_ref 0, spawn_listener = True,
                      error_listener = True, settled = Pending\<rparr>],
         log = [Spawn ''godot'' [''-d'', ''--path'', ''game'']]\<rparr>)"
    by (simp add: handleRunProject_def run_project_call_def no_args_def truthy_def str_def
          validateProjectPath_def validateProjectDirectory_def demo_checks demo_world_def
          initial_state_def run_project_args_def v fun_eq_iff)
  have sw: "tool_switch (demo_world []) (demo_executor None) ''run_project'' a s
          = handleRunProject (demo_world []) a s" for a s
    by (simp add: tool_switch_def)
  have t: "tool_call_result (demo_world [])
        (run (demo_world []) (demo_executor None) initial_state
           [Call ''run_project'' (run_project_call (Some ''../secret.tscn'')), Spawn_event 0])
        (fst (tool_switch (demo_world []) (demo_executor None) ''run_project''
                (run_project_call (Some ''../secret.tscn'')) initial_state))
     = Resolved project_started"
    by (simp add: run_def sw r tool_call_result_def handler_promise_def catch_all_def
          on_spawn_def resolve_def project_started_def)
  from v r t show ?thesis by (simp add: project_started_def isError_success)
qed

lemma unsafe_newPath_is_reported:
  "snd (handleSaveScene (demo_world []) (demo_executor None)
          (create_scene_call\<lparr>newPath := Some ''../secret.tscn''\<rparr>))
     = Resolved (createErrorResponse ''Invalid new path''
         [''Provide a valid new path without '' @ [dquote] @ ''..'' @ [dquote]
            @ '' or other potentially unsafe characters''])"
  by (simp add: handleSaveScene_def create_scene_call_def no_args_def truthy_def str_def
        validateProjectPath_def demo_checks validatePath_def)

section \<open>The request handler for tool calls\<close>

text \<open>
  C1, as amended. The promise of the request handler is never rejected. When the promise
  of the selected handler has settled, resolved or rejected with any thrown value, the
  request handler's promise has resolved with a response, the error response of the
  \<open>catch\<close> clause for a rejection; and it is pending exactly as long as the handler's
  promise is.
\<close>

theorem tool_call_never_throws:
  "(\<forall>e. tool_call_result w s' (fst (tool_switch w ex name a s)) \<noteq> Rejected e)
   \<and> (handler_promise s' (fst (tool_switch w ex name a s)) \<noteq> Pending
      \<longrightarrow> (\<exists>r. tool_call_result w s' (fst (tool_switch w ex name a s)) = Resolved r))
   \<and> (\<forall>e. handler_promise s' (fst (tool_switch w ex name a s)) = Rejected e
      \<longrightarrow> tool_call_result w s' (fst (tool_switch w ex name a s))
          = Resolved (createErrorResponse (''Tool execution failed: '' @ error_message w e)
              [''Check the tool parameters and try again'']))
   \<and> (handler_promise s' (fst (tool_switch w ex name a s)) = Pending
      \<longrightarrow> tool_call_result w s' (fst (tool_switch w ex name a s)) = Pending)"
  by (cases "handler_promise s' (fst (tool_switch w ex name a s))")
     (simp_all add: tool_call_result_def catch_all_def)

theorem tool_call_never_throws_witness:
  "handler_promise initial_state
     (fst (tool_switch (demo_world []) (demo_executor None) ''launch_editor''
             (run_project_call None\<lparr>projectPath := Some ''../game''\<rparr>) initial_state))
     = Rejected (Error ''Invalid project path - contains potentially unsafe characters'')
   \<and> tool_call_result (demo_world []) initial_state
       (fst (tool_switch (demo_world []) (demo_executor None) ''launch_editor''
               (run_project_call None\<lparr>projectPath := Some ''../game''\<rparr>) initial_state))
     = Resolved (createErrorResponse
         (''Tool execution failed: ''
            @ ''Invalid project path - contains potentially unsafe characters'')
         [''Check the tool parameters and try again''])
   \<and> tool_call_result (demo_world []) initial_state
       (fst (tool_switch (demo_world []) (demo_executor None) ''no_such_tool''
               no_args initial_state))
     = Resolved (createErrorResponse (''Tool execution failed: Unknown tool: no_such_tool'')
         [''Check the tool parameters and try again''])"
proof -
  let ?w = "demo_world []"
  let ?a = "run_project_call None\<lparr>projectPath := Some ''../game''\<rparr>"
  have v: "validatePath ''../game'' = False"
    by (simp add: validatePath_def)
  have h: "handler_promise initial_state
     (fst (tool_switch ?w (demo_executor None) ''launch_editor'' ?a initial_state))
     = Rejected (Error ''Invalid project path - contains potentially unsafe characters'')"
    by (simp add: tool_switch_def stateless_def handler_promise_def handleLaunchEditor_def
          run_project_call_def no_args_def truthy_def str_def validateProjectPath_def v)
  have u: "handler_promise initial_state
     (fst (tool_switch ?w (demo_executor None) ''no_such_tool'' no_args initial_state))
     = Rejected (McpError ''Unknown tool: no_such_tool'')"
    by (simp add: tool_switch_def handler_promise_def)
  have m: "McpError_message ?w t = t" for t
    by (simp add: demo_world_def)
  from tool_call_never_throws [of ?w initial_state "demo_executor None" "''launch_editor''"
         ?a initial_state] h
  have 1: "tool_call_result ?w initial_state
       (fst (tool_switch ?w (demo_executor None) ''launch_editor'' ?a initial_state))
     = Resolved (createErrorResponse
         (''Tool execution failed: ''
            @ error_message ?w
                (Error ''Invalid project path - contains potentially unsafe characters''))
         [''Check the tool parameters and try again''])"
    by blast
  from tool_call_never_throws [of ?w initial_state "demo_executor None" "''no_such_tool''"
         no_args initial_state] u
  have 2: "tool_call_result ?w initial_state
       (fst (tool_switch ?w (demo_executor None) ''no_such_tool'' no_args initial_state))
     = Resolved (createErrorResponse
         (''Tool execution failed: ''
            @ error_message ?w (McpError ''Unknown tool: no_such_tool''))
         [''Check the tool parameters and try again''])"
    by blast
  from h 1 2 show ?thesis by (simp add: m)
qed

text \<open>
  C1, as stated, fails: a \<open>create_scene\<close> call whose child writes to \<open>stdout\<close> and never
  closes is never answered.
\<close>

theorem tool_call_can_stay_pending:
  "tool_call_result (demo_world [Spawned, Stdout_data ''working''])
     (snd (tool_switch (demo_world [Spawned, Stdout_data ''working''])
             (demo_executor (Some ''godot'')) ''create_scene'' create_scene_call
             initial_state))
     (fst (tool_switch (demo_world [Spawned, Stdout_data ''working''])
             (demo_executor (Some ''godot'')) ''create_scene'' create_scene_call
             initial_state))
   = Pending"
  by (simp add: tool_switch_def stateless_def tool_call_result_def handler_promise_def
        catch_all_def demo_create_scene)

end
